theory Spec2Isabelle
  imports Complex_Main "HOL-Library.Sublist"
begin

section \<open>Data model\<close>

text \<open>
  The embedding follows \<^verbatim>\<open>src/clover/valid_pred_sets.py\<close>. numpy arrays are lists:
  a one-dimensional array is a list of numbers, a two-dimensional array the list of its rows.
  The entries of arrays are real numbers (rounding and overflow of float64 are not modelled).
  The value \<^verbatim>\<open>nan\<close>, which \<^verbatim>\<open>np.mean\<close> gives on an empty array and which then spreads
  through arithmetic, is modelled: a float that may be \<^verbatim>\<open>nan\<close> is a \<open>real option\<close>,
  with \<open>None\<close> for \<^verbatim>\<open>nan\<close>.
\<close>

type_synonym vec = "real list"
type_synonym matrix = "real list list"
type_synonym npfloat = "real option"

text \<open>What an estimator's prediction method hands back: a vector or a table.\<close>

datatype ndarray = Arr1 vec | Arr2 matrix

text \<open>
  Exceptions are values. The first six are the Python exceptions the code can raise by
  itself, \<open>LibraryError\<close> stands for an exception raised inside an external library, and the
  last three are the error names of the specification, which no line of the source raises.
\<close>

datatype error =
    AttributeError | TypeError | ValueError | IndexError
  | UnboundLocalError | ZeroDivisionError
  | LibraryError
  | UnsupportedEvaluator | ShapeMismatch | NoPruningCandidate

text \<open>Reading an attribute that was never assigned raises \<^verbatim>\<open>AttributeError\<close>.\<close>

definition attr :: "'a option \<Rightarrow> error + 'a" where
  "attr a = (case a of None \<Rightarrow> Inl AttributeError | Some v \<Rightarrow> Inr v)"

text \<open>\<^verbatim>\<open>a[i, j]\<close> for non-negative indices.\<close>

definition idx2 :: "matrix \<Rightarrow> nat \<Rightarrow> nat \<Rightarrow> error + real" where
  "idx2 a i j =
     (if i < length a \<and> j < length (a ! i) then Inr (a ! i ! j) else Inl IndexError)"

text \<open>\<^verbatim>\<open>a[i]\<close> for a non-negative index.\<close>

definition idx1 :: "'a list \<Rightarrow> nat \<Rightarrow> error + 'a" where
  "idx1 a i = (if i < length a then Inr (a ! i) else Inl IndexError)"

section \<open>The coverage indicator (lines 108 to 111 of \<^verbatim>\<open>fit\<close>)\<close>

text \<open>
  \<^verbatim>\<open>
  w = np.zeros(y_calib.shape[0])
  for i in range(y_calib.shape[0]):
      w[i] = int(y_calib[i] >= preds[i, 0] and y_calib[i] <= preds[i, 1])
  \<close>
  The loop runs over the indices of \<open>y\<close>; \<^verbatim>\<open>and\<close> does not read \<^verbatim>\<open>preds[i, 1]\<close> when
  its left operand is false.
\<close>

fun label_loop :: "vec \<Rightarrow> matrix \<Rightarrow> nat list \<Rightarrow> vec \<Rightarrow> error + vec" where
  "label_loop y preds [] w = Inr w"
| "label_loop y preds (i # rest) w =
     (case idx1 y i of Inl e \<Rightarrow> Inl e | Inr yi \<Rightarrow>
      case idx2 preds i 0 of Inl e \<Rightarrow> Inl e | Inr lo \<Rightarrow>
        if yi \<ge> lo then
          (case idx2 preds i 1 of Inl e \<Rightarrow> Inl e | Inr hi \<Rightarrow>
             if i < length w
             then label_loop y preds rest (w[i := (if yi \<le> hi then 1 else 0)])
             else Inl IndexError)
        else if i < length w then label_loop y preds rest (w[i := 0])
        else Inl IndexError)"

definition label :: "vec \<Rightarrow> matrix \<Rightarrow> error + vec" where
  "label y preds = label_loop y preds [0..<length y] (replicate (length y) 0)"

section \<open>Sequencing of calls that may raise\<close>

text \<open>\<open>bindE r f\<close> runs \<open>f\<close> on the value of \<open>r\<close>, and passes an exception of \<open>r\<close> on.\<close>

definition bindE :: "error + 'a \<Rightarrow> ('a \<Rightarrow> error + 'b) \<Rightarrow> error + 'b" where
  "bindE r f = (case r of Inl e \<Rightarrow> Inl e | Inr v \<Rightarrow> f v)"

section \<open>numpy operations used by the source\<close>

text \<open>\<^verbatim>\<open>np.stack((lo, hi), axis=-1)\<close>: the two vectors become the two columns.\<close>

definition np_stack_last :: "vec \<Rightarrow> vec \<Rightarrow> error + matrix" where
  "np_stack_last lo hi =
     (if length lo = length hi then Inr (map2 (\<lambda>a b. [a, b]) lo hi) else Inl ValueError)"

text \<open>All entries of an array, in C order (\<^verbatim>\<open>flatten(order="C")\<close>).\<close>

fun flat :: "ndarray \<Rightarrow> vec" where
  "flat (Arr1 v) = v"
| "flat (Arr2 a) = concat a"

text \<open>\<^verbatim>\<open>len(pred[0])\<close>: the first row of a table has a length, a number has none.\<close>

definition len_row0 :: "ndarray \<Rightarrow> error + nat" where
  "len_row0 pred =
     (case pred of
        Arr1 v \<Rightarrow> (if v = [] then Inl IndexError else Inl TypeError)
      | Arr2 a \<Rightarrow> (case a of [] \<Rightarrow> Inl IndexError | r # rs \<Rightarrow> Inr (length r)))"

text \<open>\<^verbatim>\<open>pred[:, 1]\<close>.\<close>

definition column1 :: "ndarray \<Rightarrow> error + ndarray" where
  "column1 pred =
     (case pred of
        Arr1 v \<Rightarrow> Inl IndexError
      | Arr2 a \<Rightarrow> (if list_all (\<lambda>r. 1 < length r) a then Inr (Arr1 (map (\<lambda>r. r ! 1) a))
                  else Inl IndexError))"

text \<open>\<^verbatim>\<open>a[idx]\<close> and \<^verbatim>\<open>a[idx, :]\<close> for an array of non-negative indices.\<close>

definition take_idx :: "'a list \<Rightarrow> nat list \<Rightarrow> error + 'a list" where
  "take_idx a ix =
     (if list_all (\<lambda>i. i < length a) ix then Inr (map (\<lambda>i. a ! i) ix) else Inl IndexError)"

text \<open>\<^verbatim>\<open>np.abs(r - (1 - alpha))\<close>, entry by entry.\<close>

definition abs_dev :: "ndarray \<Rightarrow> real \<Rightarrow> vec" where
  "abs_dev r a = map (\<lambda>x. \<bar>x - (1 - a)\<bar>) (flat r)"

text \<open>\<^verbatim>\<open>np.mean\<close> is \<^verbatim>\<open>nan\<close> on an empty array; \<^verbatim>\<open>np.max\<close> raises there.\<close>

definition np_mean :: "vec \<Rightarrow> npfloat" where
  "np_mean xs = (if xs = [] then None else Some (sum_list xs / real (length xs)))"

definition np_max :: "vec \<Rightarrow> error + real" where
  "np_max xs = (case xs of [] \<Rightarrow> Inl ValueError | x # rest \<Rightarrow> Inr (fold max rest x))"

text \<open>Arithmetic on floats that may be \<^verbatim>\<open>nan\<close>: \<^verbatim>\<open>nan\<close> spreads, and compares false.\<close>

definition lift2 :: "(real \<Rightarrow> real \<Rightarrow> real) \<Rightarrow> npfloat \<Rightarrow> npfloat \<Rightarrow> npfloat" where
  "lift2 f x y =
     (case x of None \<Rightarrow> None | Some u \<Rightarrow> (case y of None \<Rightarrow> None | Some v \<Rightarrow> Some (f u v)))"

definition fgt :: "npfloat \<Rightarrow> npfloat \<Rightarrow> bool" where
  "fgt x y = (case x of None \<Rightarrow> False | Some u \<Rightarrow> (case y of None \<Rightarrow> False | Some v \<Rightarrow> u > v))"

definition fmean :: "npfloat list \<Rightarrow> npfloat" where
  "fmean xs = (case those xs of None \<Rightarrow> None | Some ys \<Rightarrow> np_mean ys)"

definition fsum :: "npfloat list \<Rightarrow> npfloat" where
  "fsum xs = map_option sum_list (those xs)"

definition fsqrt :: "npfloat \<Rightarrow> npfloat" where
  "fsqrt x = (case x of None \<Rightarrow> None | Some v \<Rightarrow> if v < 0 then None else Some (sqrt v))"

text \<open>
  \<^verbatim>\<open>a > b\<close> on one-dimensional arrays: equal lengths compare entry by entry, an array of
  length one is broadcast, any other pair of lengths raises \<^verbatim>\<open>ValueError\<close>.
  A tuple on the right is first made an array.
\<close>

definition np_greater :: "npfloat list \<Rightarrow> npfloat list \<Rightarrow> error + bool list" where
  "np_greater a b =
     (if length a = length b then Inr (map2 fgt a b)
      else if length a = 1 then Inr (map (\<lambda>y. fgt (hd a) y) b)
      else if length b = 1 then Inr (map (\<lambda>x. fgt x (hd b)) a)
      else Inl ValueError)"

text \<open>\<^verbatim>\<open>.mean()\<close> of a boolean array: the fraction of its true entries.\<close>

definition bool_mean :: "bool list \<Rightarrow> npfloat" where
  "bool_mean bs = np_mean (map (\<lambda>b. if b then 1 else 0) bs)"

section \<open>External collaborators\<close>

text \<open>
  The interval predictor \<^verbatim>\<open>conf\<close> is an object of another library. Its three calling
  conventions are three functions: \<^verbatim>\<open>predict(X, significance=alpha)\<close>,
  \<^verbatim>\<open>predict_pi(X, method="qrf")\<close>, which gives the two bounds as two vectors, and
  \<^verbatim>\<open>predict(X)\<close>.
\<close>

record conf =
  conf_predict_sig :: "matrix \<Rightarrow> real \<Rightarrow> error + matrix"
  conf_predict_pi :: "matrix \<Rightarrow> error + vec \<times> vec"
  conf_predict :: "matrix \<Rightarrow> error + matrix"

text \<open>
  sklearn, pygam, scipy and numpy's random generator are parameters of the model: a record
  of functions over a type \<open>'m\<close> of estimator objects, a type \<open>'g\<close> of states of numpy's
  global random generator and a type \<open>'k\<close> of keyword arguments (\<^verbatim>\<open>**kwargs\<close>).
  A function that draws random numbers takes the generator's state and returns the next one;
  fitting an estimator is among them, since an estimator without a \<^verbatim>\<open>random_state\<close> of its
  own draws from the global generator. A method that an object lacks is a function that
  returns \<open>Inl AttributeError\<close>. \<^verbatim>\<open>deepcopy\<close> is the identity, values being immutable here.
\<close>

record ('m, 'g, 'k) lib =
  np_random_seed :: "nat \<Rightarrow> 'g"
  binom_rvs :: "'g \<Rightarrow> real \<Rightarrow> nat \<Rightarrow> error + vec \<times> 'g"
  np_random_randint :: "'g \<Rightarrow> int \<Rightarrow> int \<Rightarrow> error + nat list \<times> 'g"
  train_test_split :: "'g \<Rightarrow> matrix \<Rightarrow> vec \<Rightarrow> real \<Rightarrow> error + (matrix \<times> matrix \<times> vec \<times> vec) \<times> 'g"
  train_test_split_seeded :: "nat \<Rightarrow> matrix \<Rightarrow> vec \<Rightarrow> real \<Rightarrow> error + (matrix \<times> matrix \<times> vec \<times> vec)"
  DecisionTreeClassifier :: "nat option \<Rightarrow> nat \<Rightarrow> 'm"
  RandomForestClassifier :: "'k \<Rightarrow> error + 'm"
  LogisticGAM :: "'m"
  set_params :: "'m \<Rightarrow> 'k \<Rightarrow> error + 'm"
  set_ccp_alpha :: "'m \<Rightarrow> real \<Rightarrow> error + 'm"
  clone :: "'m \<Rightarrow> error + 'm"
  model_fit :: "'g \<Rightarrow> 'm \<Rightarrow> matrix \<Rightarrow> vec \<Rightarrow> error + 'm \<times> 'g"
  model_predict_proba :: "'m \<Rightarrow> matrix \<Rightarrow> error + ndarray"
  model_predict :: "'m \<Rightarrow> matrix \<Rightarrow> error + ndarray"
  cost_complexity_pruning_path :: "'m \<Rightarrow> matrix \<Rightarrow> vec \<Rightarrow> error + real list"
  gridsearch :: "'m \<Rightarrow> matrix \<Rightarrow> vec \<Rightarrow> error + 'm"
  grid_search :: "'m \<Rightarrow> matrix \<Rightarrow> vec \<Rightarrow> error + 'm"
  move_to_cpu :: "'m \<Rightarrow> error + 'm"
  type_str :: "'m \<Rightarrow> string"
  brier_score_loss :: "vec \<Rightarrow> ndarray \<Rightarrow> error + real"
  norm_ppf :: "real \<Rightarrow> npfloat"
  np_quantile :: "npfloat list \<Rightarrow> real \<Rightarrow> error + npfloat"

section \<open>The class \<^verbatim>\<open>Valid_pred_sets\<close>\<close>

text \<open>
  \<^verbatim>\<open>coverage_evaluator\<close> is a string (a family tag) or an estimator object.
\<close>

datatype 'm evaluator = Tag string | Estimator 'm

text \<open>
  The object's attributes. Those of \<^verbatim>\<open>__init__\<close> are always there; \<^verbatim>\<open>X_train\<close>,
  \<^verbatim>\<open>X_test\<close>, \<^verbatim>\<open>w_train\<close>, \<^verbatim>\<open>w_test\<close> and \<^verbatim>\<open>model\<close> exist once they are assigned.
\<close>

record 'm valid_pred_sets =
  conf :: conf
  alpha :: real
  nc :: bool
  islcp :: bool
  coverage_evaluator :: "'m evaluator"
  prune :: bool
  split_train :: bool
  X_train :: "matrix option"
  X_test :: "matrix option"
  w_train :: "vec option"
  w_test :: "vec option"
  model :: "'m option"

definition init :: "conf \<Rightarrow> real \<Rightarrow> bool \<Rightarrow> bool \<Rightarrow> 'm evaluator \<Rightarrow> bool \<Rightarrow> bool \<Rightarrow> 'm valid_pred_sets" where
  "init c a isnc islcp' ce prune' split_train' =
     \<lparr>conf = c, alpha = a, nc = isnc, islcp = islcp', coverage_evaluator = ce,
      prune = prune', split_train = split_train',
      X_train = None, X_test = None, w_train = None, w_test = None, model = None\<rparr>"

text \<open>
  The test \<^verbatim>\<open>coverage_evaluator == "RF" or "sklearn" in str(type(model))\<close>; the right
  operand, and with it the model, is only read when the left one is false.
\<close>

definition is_table_family :: "('m, 'g, 'k) lib \<Rightarrow> 'm evaluator \<Rightarrow> error + 'm \<Rightarrow> error + bool" where
  "is_table_family L ce m =
     (if ce = Tag ''RF'' then Inr True
      else bindE m (\<lambda>m'. Inr (sublist ''sklearn'' (type_str L m'))))"

text \<open>\<^verbatim>\<open>predict\<close>; the Python \<^verbatim>\<open>None\<close> of a call that falls off the end is \<open>None\<close>.\<close>

definition predict :: "('m, 'g, 'k) lib \<Rightarrow> 'm valid_pred_sets \<Rightarrow> matrix \<Rightarrow> error + ndarray option" where
  "predict L S X =
     bindE (is_table_family L (coverage_evaluator S) (attr (model S))) (\<lambda>tab.
       if tab then
         bindE (attr (model S)) (\<lambda>m.
         bindE (model_predict_proba L m X) (\<lambda>pred.
         bindE (len_row0 pred) (\<lambda>n.
           if n = 1 then Inr (Some pred)
           else bindE (column1 pred) (\<lambda>c. Inr (Some c)))))
       else if coverage_evaluator S = Tag ''GAM'' then
         bindE (attr (model S)) (\<lambda>m.
         bindE (model_predict_proba L m X) (\<lambda>pred. Inr (Some pred)))
       else if coverage_evaluator S = Tag ''nnet'' then
         bindE (attr (model S)) (\<lambda>m.
         bindE (model_predict L m X) (\<lambda>p. Inr (Some (Arr1 (flat p)))))
       else Inr None)"

text \<open>\<^verbatim>\<open>retrain\<close>: the first two branches predict on \<^verbatim>\<open>self.X_test\<close>, the last on the argument.\<close>

definition retrain ::
  "('m, 'g, 'k) lib \<Rightarrow> 'm valid_pred_sets \<Rightarrow> matrix \<Rightarrow> vec \<Rightarrow> matrix \<Rightarrow> 'g \<Rightarrow> error + ndarray \<times> 'g" where
  "retrain L S Xtr new_w Xte g =
     bindE (is_table_family L (coverage_evaluator S) (attr (model S))) (\<lambda>tab.
       if tab then
         bindE (attr (model S)) (\<lambda>m.
         bindE (clone L m) (\<lambda>c.
         bindE (model_fit L g c Xtr new_w) (\<lambda>(model_temp, g').
         bindE (attr (X_test S)) (\<lambda>Xt.
         bindE (model_predict_proba L model_temp Xt) (\<lambda>pred.
         bindE (len_row0 pred) (\<lambda>n.
           if n = 1 then Inr (pred, g')
           else bindE (column1 pred) (\<lambda>new_r. Inr (new_r, g'))))))))
       else if coverage_evaluator S = Tag ''GAM'' then
         bindE (grid_search L (LogisticGAM L) Xtr new_w) (\<lambda>gs.
         bindE (model_fit L g gs Xtr new_w) (\<lambda>(model_temp, g').
         bindE (attr (X_test S)) (\<lambda>Xt.
         bindE (model_predict_proba L model_temp Xt) (\<lambda>new_r. Inr (new_r, g')))))
       else
         bindE (attr (model S)) (\<lambda>m.
         bindE (model_fit L g m Xtr new_w) (\<lambda>(model_temp, g').
         bindE (model_predict L model_temp Xte) (\<lambda>p. Inr (Arr1 (flat p), g')))))"

text \<open>\<^verbatim>\<open>compute_dif\<close>: the mean and the maximum of the absolute deviations.\<close>

definition compute_dif :: "('m, 'g, 'k) lib \<Rightarrow> 'm valid_pred_sets \<Rightarrow> error + npfloat \<times> real" where
  "compute_dif L S =
     bindE (if split_train S then bindE (attr (X_test S)) (predict L S)
            else bindE (attr (X_train S)) (predict L S)) (\<lambda>r.
       case r of
         None \<Rightarrow> Inl TypeError
       | Some v \<Rightarrow> bindE (np_max (abs_dev v (alpha S))) (\<lambda>t_max.
                    Inr (np_mean (abs_dev v (alpha S)), t_max)))"

section \<open>The functions of the worker processes\<close>

definition retrain_par ::
  "('m, 'g, 'k) lib \<Rightarrow> 'm evaluator \<Rightarrow> 'm \<Rightarrow> matrix \<Rightarrow> vec \<Rightarrow> matrix \<Rightarrow> 'g \<Rightarrow> error + ndarray \<times> 'g" where
  "retrain_par L ce m Xtr new_w Xte g =
     bindE (is_table_family L ce (Inr m)) (\<lambda>tab.
       if tab then
         bindE (clone L m) (\<lambda>c.
         bindE (model_fit L g c Xtr new_w) (\<lambda>(model_temp, g').
         bindE (model_predict_proba L model_temp Xte) (\<lambda>pred.
         bindE (len_row0 pred) (\<lambda>n.
           if n = 1 then Inr (pred, g')
           else bindE (column1 pred) (\<lambda>new_r. Inr (new_r, g'))))))
       else if ce = Tag ''GAM'' then
         bindE (grid_search L (LogisticGAM L) Xtr new_w) (\<lambda>gs.
         bindE (model_fit L g gs Xtr new_w) (\<lambda>(model_temp, g').
         bindE (model_predict_proba L model_temp Xte) (\<lambda>new_r. Inr (new_r, g'))))
       else
         bindE (move_to_cpu L m) (\<lambda>mc.
         bindE (model_fit L g mc Xtr new_w) (\<lambda>(model_temp, g').
         bindE (model_predict L model_temp Xte) (\<lambda>p. Inr (Arr1 (flat p), g')))))"

definition retrain_loop_par ::
  "('m, 'g, 'k) lib \<Rightarrow> 'm evaluator \<Rightarrow> 'm \<Rightarrow> real \<Rightarrow> matrix \<Rightarrow> vec \<Rightarrow> matrix \<Rightarrow> nat \<Rightarrow> error + npfloat" where
  "retrain_loop_par L ce m a Xtr wtr Xte seed =
     bindE (binom_rvs L (np_random_seed L seed) (1 - a) (length wtr)) (\<lambda>(new_w, g1).
     bindE (retrain_par L ce m Xtr new_w Xte g1) (\<lambda>(new_r, g2).
       Inr (np_mean (abs_dev new_r a))))"

definition bootstrap_par ::
  "('m, 'g, 'k) lib \<Rightarrow> int \<Rightarrow> real \<Rightarrow> 'm evaluator \<Rightarrow> 'm \<Rightarrow> matrix \<Rightarrow> vec \<Rightarrow> matrix \<Rightarrow> nat \<Rightarrow> error + npfloat" where
  "bootstrap_par L B a ce m Xtr wtr Xte seed =
     bindE (np_random_randint L (np_random_seed L seed) (int (length Xtr)) B) (\<lambda>(new_indexes, g1).
     bindE (take_idx Xtr new_indexes) (\<lambda>new_X_train.
     bindE (take_idx wtr new_indexes) (\<lambda>new_w_train.
     bindE (retrain_par L ce m new_X_train new_w_train Xte g1) (\<lambda>(new_r, g2).
       Inr (np_mean (abs_dev new_r a))))))"

section \<open>Dispatch to the worker pool\<close>

text \<open>
  \<^verbatim>\<open>pool.apply_async(f, args=(...))\<close> hands a tuple of Python values to a worker, which
  calls \<^verbatim>\<open>f(*args)\<close>; \<^verbatim>\<open>result.get()\<close> returns the value of that call or raises its
  exception again. Python binds positional arguments by their number, so a tuple whose
  length is not the number of parameters of \<^verbatim>\<open>f\<close> raises \<^verbatim>\<open>TypeError\<close> before the body
  runs. (A tuple of the right length with a value of another kind in some place makes the
  body fail; the source has no such call, and the model gives \<^verbatim>\<open>TypeError\<close> there too.)
  Tasks are independent, so running them one after the other in the order of submission
  gives what the pool gives. The creation of the pool (\<^verbatim>\<open>Pool(cpus - 1)\<close>, which raises on
  a machine with a single core) and its teardown are outside the model.
\<close>

datatype 'm pyval =
    PInt int | PFloat real | PEvaluator "'m evaluator" | PModel 'm
  | PMatrix matrix | PVector vec

definition call_retrain_loop_par :: "('m, 'g, 'k) lib \<Rightarrow> 'm pyval list \<Rightarrow> error + npfloat" where
  "call_retrain_loop_par L args =
     (if length args \<noteq> 7 then Inl TypeError
      else case args of
        [PEvaluator ce, PModel m, PFloat a, PMatrix Xtr, PVector wtr, PMatrix Xte, PInt seed] \<Rightarrow>
          retrain_loop_par L ce m a Xtr wtr Xte (nat seed)
      | _ \<Rightarrow> Inl TypeError)"

definition call_bootstrap_par :: "('m, 'g, 'k) lib \<Rightarrow> 'm pyval list \<Rightarrow> error + npfloat" where
  "call_bootstrap_par L args =
     (if length args \<noteq> 8 then Inl TypeError
      else case args of
        [PInt B, PFloat a, PEvaluator ce, PModel m, PMatrix Xtr, PVector wtr, PMatrix Xte, PInt seed] \<Rightarrow>
          bootstrap_par L B a ce m Xtr wtr Xte (nat seed)
      | _ \<Rightarrow> Inl TypeError)"

section \<open>\<^verbatim>\<open>monte_carlo_test\<close>\<close>

text \<open>The sequential loop \<^verbatim>\<open>for i in range(B)\<close>; the list holds \<^verbatim>\<open>t_b\<close> in order.\<close>

fun mc_loop ::
  "('m, 'g, 'k) lib \<Rightarrow> 'm valid_pred_sets \<Rightarrow> nat \<Rightarrow> 'g \<Rightarrow> error + npfloat list \<times> 'g" where
  "mc_loop L S 0 g = Inr ([], g)"
| "mc_loop L S (Suc n) g =
     bindE (attr (w_train S)) (\<lambda>wtr.
     bindE (binom_rvs L g (1 - alpha S) (length wtr)) (\<lambda>(new_w, g1).
     bindE (attr (X_train S)) (\<lambda>Xtr.
     bindE (attr (X_test S)) (\<lambda>Xte.
     bindE (retrain L S Xtr new_w Xte g1) (\<lambda>(new_r, g2).
     bindE (mc_loop L S n g2) (\<lambda>(ts, g3).
       Inr (np_mean (abs_dev new_r (alpha S)) # ts, g3)))))))"

text \<open>
  The parallel loop \<^verbatim>\<open>for seed in seeds\<close>: one task per seed, results collected in the
  order of submission.
\<close>

fun mc_dispatch ::
  "('m, 'g, 'k) lib \<Rightarrow> 'm valid_pred_sets \<Rightarrow> nat list \<Rightarrow> error + npfloat list" where
  "mc_dispatch L S [] = Inr []"
| "mc_dispatch L S (seed # rest) =
     bindE (attr (model S)) (\<lambda>m.
     bindE (attr (X_train S)) (\<lambda>Xtr.
     bindE (attr (w_train S)) (\<lambda>wtr.
     bindE (attr (X_test S)) (\<lambda>Xte.
     bindE (call_retrain_loop_par L
              [PEvaluator (coverage_evaluator S), PModel m, PFloat (alpha S),
               PMatrix Xtr, PVector wtr, PMatrix Xte, PInt (int seed)]) (\<lambda>t.
     bindE (mc_dispatch L S rest) (\<lambda>ts. Inr (t # ts)))))))"

record mc_result =
  p_value :: npfloat
  observed_statistic :: "npfloat \<times> real"

text \<open>
  \<^verbatim>\<open>t_obs\<close> is what \<^verbatim>\<open>compute_dif\<close> returns, the pair; \<^verbatim>\<open>t_b > t_obs\<close> compares the
  array \<^verbatim>\<open>t_b\<close> with the array of the pair's two entries.
\<close>

text \<open>
  The statistics \<^verbatim>\<open>t_b\<close> of the \<^verbatim>\<open>B\<close> repetitions, by the loop (\<^verbatim>\<open>np.zeros(B)\<close> raises
  on a negative \<^verbatim>\<open>B\<close>) or by the pool, after \<^verbatim>\<open>np.random.seed(random_seed)\<close>.
\<close>

definition mc_t_b ::
  "('m, 'g, 'k) lib \<Rightarrow> 'm valid_pred_sets \<Rightarrow> int \<Rightarrow> nat \<Rightarrow> bool \<Rightarrow> error + npfloat list" where
  "mc_t_b L S B random_seed par =
     (if \<not> par then
        (if B < 0 then Inl ValueError
         else bindE (mc_loop L S (nat B) (np_random_seed L random_seed)) (\<lambda>(ts, g). Inr ts))
      else
        bindE (np_random_randint L (np_random_seed L random_seed) 100000000 B) (\<lambda>(seeds, g).
          mc_dispatch L S seeds))"

definition monte_carlo_test ::
  "('m, 'g, 'k) lib \<Rightarrow> 'm valid_pred_sets \<Rightarrow> int \<Rightarrow> nat \<Rightarrow> bool \<Rightarrow> error + mc_result" where
  "monte_carlo_test L S B random_seed par =
     bindE (compute_dif L S) (\<lambda>t_obs.
     bindE (mc_t_b L S B random_seed par) (\<lambda>t_b.
     bindE (np_greater t_b [fst t_obs, Some (snd t_obs)]) (\<lambda>gt.
       Inr \<lparr>p_value = bool_mean gt, observed_statistic = t_obs\<rparr>)))"

section \<open>\<^verbatim>\<open>bootstrap_ci\<close>\<close>

fun boot_loop ::
  "('m, 'g, 'k) lib \<Rightarrow> 'm valid_pred_sets \<Rightarrow> int \<Rightarrow> nat \<Rightarrow> 'g \<Rightarrow> error + npfloat list \<times> 'g" where
  "boot_loop L S B 0 g = Inr ([], g)"
| "boot_loop L S B (Suc n) g =
     bindE (attr (X_train S)) (\<lambda>Xtr.
     bindE (np_random_randint L g (int (length Xtr)) B) (\<lambda>(new_indexes, g1).
     bindE (take_idx Xtr new_indexes) (\<lambda>new_X_train.
     bindE (attr (w_train S)) (\<lambda>wtr.
     bindE (take_idx wtr new_indexes) (\<lambda>new_w_train.
     bindE (attr (X_test S)) (\<lambda>Xte.
     bindE (retrain L S new_X_train new_w_train Xte g1) (\<lambda>(new_r, g2).
     bindE (boot_loop L S B n g2) (\<lambda>(ts, g3).
       Inr (np_mean (abs_dev new_r (alpha S)) # ts, g3)))))))))"

text \<open>The tuple handed to \<^verbatim>\<open>bootstrap_par\<close> has nine entries: \<^verbatim>\<open>self.alpha\<close> stands twice.\<close>

fun boot_dispatch ::
  "('m, 'g, 'k) lib \<Rightarrow> 'm valid_pred_sets \<Rightarrow> int \<Rightarrow> nat list \<Rightarrow> error + npfloat list" where
  "boot_dispatch L S B [] = Inr []"
| "boot_dispatch L S B (seed # rest) =
     bindE (attr (model S)) (\<lambda>m.
     bindE (attr (X_train S)) (\<lambda>Xtr.
     bindE (attr (w_train S)) (\<lambda>wtr.
     bindE (attr (X_test S)) (\<lambda>Xte.
     bindE (call_bootstrap_par L
              [PInt B, PFloat (alpha S), PEvaluator (coverage_evaluator S), PModel m,
               PFloat (alpha S), PMatrix Xtr, PVector wtr, PMatrix Xte, PInt (int seed)]) (\<lambda>t.
     bindE (boot_dispatch L S B rest) (\<lambda>ts. Inr (t # ts)))))))"

text \<open>
  \<^verbatim>\<open>np.sqrt(1 / (B - 1) * np.sum((t_vec - np.mean(t_vec)) ** 2))\<close>; \<^verbatim>\<open>B\<close> is a Python
  integer, so \<^verbatim>\<open>1 / (B - 1)\<close> raises \<^verbatim>\<open>ZeroDivisionError\<close> when \<^verbatim>\<open>B\<close> is 1.
\<close>

definition epb :: "int \<Rightarrow> npfloat list \<Rightarrow> error + npfloat" where
  "epb B t_vec =
     (if B - 1 = 0 then Inl ZeroDivisionError
      else Inr (fsqrt (lift2 (*) (Some (1 / real_of_int (B - 1)))
                  (fsum (map (\<lambda>t. map_option (\<lambda>d. d ^ 2) (lift2 (-) t (fmean t_vec))) t_vec)))))"

record boot_result =
  boot_t_obs :: npfloat
  se_interval :: "npfloat \<times> npfloat"
  percentile_interval :: "npfloat \<times> npfloat"

text \<open>The statistics \<^verbatim>\<open>t_vec\<close> of the \<^verbatim>\<open>B\<close> repetitions, by the loop or by the pool.\<close>

definition bootstrap_t_vec ::
  "('m, 'g, 'k) lib \<Rightarrow> 'm valid_pred_sets \<Rightarrow> int \<Rightarrow> nat \<Rightarrow> bool \<Rightarrow> error + npfloat list" where
  "bootstrap_t_vec L S B random_seed par =
     (if \<not> par then
        (if B < 0 then Inl ValueError
         else bindE (boot_loop L S B (nat B) (np_random_seed L random_seed)) (\<lambda>(ts, g). Inr ts))
      else
        bindE (np_random_randint L (np_random_seed L random_seed) 100000000 B) (\<lambda>(seeds, g).
          boot_dispatch L S B seeds))"

definition bootstrap_ci ::
  "('m, 'g, 'k) lib \<Rightarrow> 'm valid_pred_sets \<Rightarrow> int \<Rightarrow> real \<Rightarrow> nat \<Rightarrow> bool \<Rightarrow> error + boot_result" where
  "bootstrap_ci L S B sig_b random_seed par =
     bindE (attr (X_test S)) (\<lambda>Xte.
     bindE (predict L S Xte) (\<lambda>r.
     bindE (case r of None \<Rightarrow> Inl TypeError
                    | Some v \<Rightarrow> Inr (np_mean (abs_dev v (alpha S)))) (\<lambda>t_obs.
     bindE (bootstrap_t_vec L S B random_seed par) (\<lambda>t_vec.
     bindE (epb B t_vec) (\<lambda>e.
     bindE (np_quantile L t_vec (sig_b / 2)) (\<lambda>q_lo.
     bindE (np_quantile L t_vec (1 - sig_b / 2)) (\<lambda>q_hi.
       Inr \<lparr>boot_t_obs = t_obs,
            se_interval =
              (lift2 (-) t_obs (lift2 (*) (norm_ppf L (1 - sig_b / 2)) e),
               lift2 (+) t_obs (lift2 (*) (norm_ppf L (1 - sig_b / 2)) e)),
            percentile_interval = (q_lo, q_hi)\<rparr>)))))))"

section \<open>\<^verbatim>\<open>prune_tree\<close>\<close>

text \<open>
  The loop over \<^verbatim>\<open>ccp_alphas\<close>. \<^verbatim>\<open>current_loss\<close> starts as \<^verbatim>\<open>float("inf")\<close>, which is
  \<open>None\<close> here; \<^verbatim>\<open>optim_ccp\<close> is unbound until the first assignment, which is \<open>None\<close> too.
\<close>

definition less_loss :: "real \<Rightarrow> real option \<Rightarrow> bool" where
  "less_loss l current = (case current of None \<Rightarrow> True | Some c \<Rightarrow> l < c)"

fun prune_loop ::
  "('m, 'g, 'k) lib \<Rightarrow> 'm \<Rightarrow> matrix \<Rightarrow> matrix \<Rightarrow> vec \<Rightarrow> vec \<Rightarrow> real list \<Rightarrow>
   real option \<Rightarrow> real option \<Rightarrow> 'g \<Rightarrow> error + real option \<times> 'g" where
  "prune_loop L m Xtr Xv wtr wv [] current_loss optim_ccp g = Inr (optim_ccp, g)"
| "prune_loop L m Xtr Xv wtr wv (ccp_alpha # rest) current_loss optim_ccp g =
     bindE (clone L m) (\<lambda>c.
     bindE (set_ccp_alpha L c ccp_alpha) (\<lambda>c'.
     bindE (model_fit L g c' Xtr wtr) (\<lambda>(fitted, g').
     bindE (model_predict L fitted Xv) (\<lambda>preds_ccp.
     bindE (brier_score_loss L wv preds_ccp) (\<lambda>loss_ccp.
       if less_loss loss_ccp current_loss
       then prune_loop L m Xtr Xv wtr wv rest (Some loss_ccp) (Some ccp_alpha) g'
       else prune_loop L m Xtr Xv wtr wv rest current_loss optim_ccp g')))))"

definition prune_tree ::
  "('m, 'g, 'k) lib \<Rightarrow> 'm valid_pred_sets \<Rightarrow> matrix \<Rightarrow> matrix \<Rightarrow> vec \<Rightarrow> vec \<Rightarrow> 'g \<Rightarrow> error + real \<times> 'g" where
  "prune_tree L S Xtr Xv wtr wv g =
     bindE (attr (model S)) (\<lambda>m.
     bindE (cost_complexity_pruning_path L m Xtr wtr) (\<lambda>ccp_alphas.
     bindE (prune_loop L m Xtr Xv wtr wv ccp_alphas None None g) (\<lambda>(optim_ccp, g').
       case optim_ccp of None \<Rightarrow> Inl UnboundLocalError | Some a \<Rightarrow> Inr (a, g'))))"

section \<open>\<^verbatim>\<open>fit\<close> and \<^verbatim>\<open>_init_coverage_evaluator\<close>\<close>

text \<open>
  Both return \<^verbatim>\<open>self\<close>. The result here is the object as the call leaves it, with the
  exception that ended the call, if one did: an attribute assigned before an exception
  stays assigned. sklearn's \<^verbatim>\<open>set_params\<close> and \<^verbatim>\<open>fit\<close> change their object in place and
  return it; the model stores what they return.
\<close>

definition fit_on_train ::
  "('m, 'g, 'k) lib \<Rightarrow> 'm valid_pred_sets \<Rightarrow> 'g \<Rightarrow> error + 'm \<Rightarrow> error option \<times> 'm valid_pred_sets" where
  "fit_on_train L S g est =
     (case bindE est (\<lambda>m.
           bindE (attr (X_train S)) (\<lambda>Xtr.
           bindE (attr (w_train S)) (\<lambda>wtr.
           bindE (model_fit L g m Xtr wtr) (\<lambda>(m', g'). Inr m')))) of
        Inl e \<Rightarrow> (Some e, S)
      | Inr m' \<Rightarrow> (None, S\<lparr>model := Some m'\<rparr>))"

definition init_coverage_evaluator ::
  "('m, 'g, 'k) lib \<Rightarrow> 'm valid_pred_sets \<Rightarrow> 'g \<Rightarrow> nat \<Rightarrow> nat \<Rightarrow> 'k \<Rightarrow> error option \<times> 'm valid_pred_sets" where
  "init_coverage_evaluator L S g random_seed prune_seed kwargs =
     (if coverage_evaluator S = Tag ''CART'' then
        (case set_params L (DecisionTreeClassifier L (Some random_seed) 100) kwargs of
           Inl e \<Rightarrow> (Some e, S)
         | Inr m0 \<Rightarrow>
            if prune S then
              (case bindE (attr (X_train S)) (\<lambda>Xtr.
                    bindE (attr (w_train S)) (\<lambda>wtr.
                    bindE (train_test_split_seeded L prune_seed Xtr wtr (1 / 2))
                      (\<lambda>(X_train_prune, X_test_prune, w_train_prune, w_test_prune).
                    bindE (prune_tree L (S\<lparr>model := Some m0\<rparr>)
                             X_train_prune X_test_prune w_train_prune w_test_prune g)
                      (\<lambda>(optim_ccp, g1).
                    bindE (set_ccp_alpha L m0 optim_ccp) (\<lambda>m1. Inr (m1, g1)))))) of
                 Inl e \<Rightarrow> (Some e, S\<lparr>model := Some m0\<rparr>)
               | Inr (m1, g1) \<Rightarrow> fit_on_train L (S\<lparr>model := Some m1\<rparr>) g1 (Inr m1))
            else
              fit_on_train L (S\<lparr>model := Some m0\<rparr>) g
                (set_params L (DecisionTreeClassifier L None 100) kwargs))
      else if coverage_evaluator S = Tag ''RF'' then
        fit_on_train L S g (RandomForestClassifier L kwargs)
      else if coverage_evaluator S = Tag ''GAM'' then
        fit_on_train L S g
          (bindE (attr (X_train S)) (\<lambda>Xtr.
           bindE (attr (w_train S)) (\<lambda>wtr. gridsearch L (LogisticGAM L) Xtr wtr)))
      else
        (case coverage_evaluator S of
           Tag s \<Rightarrow> (Some AttributeError, S)
         | Estimator m \<Rightarrow> fit_on_train L S g (set_params L m kwargs)))"

text \<open>The intervals \<^verbatim>\<open>preds\<close>, by the calling convention the flags select.\<close>

definition predict_intervals :: "'m valid_pred_sets \<Rightarrow> matrix \<Rightarrow> error + matrix" where
  "predict_intervals S X_calib =
     (if nc S then conf_predict_sig (conf S) X_calib (alpha S)
      else if islcp S then
        bindE (conf_predict_pi (conf S) X_calib) (\<lambda>(lo, hi). np_stack_last lo hi)
      else conf_predict (conf S) X_calib)"

definition fit ::
  "('m, 'g, 'k) lib \<Rightarrow> 'm valid_pred_sets \<Rightarrow> matrix \<Rightarrow> vec \<Rightarrow> nat \<Rightarrow> nat \<Rightarrow> real \<Rightarrow> 'k \<Rightarrow>
   error option \<times> 'm valid_pred_sets" where
  "fit L S X_calib y_calib random_seed prune_seed test_size kwargs =
     (case predict_intervals S X_calib of
        Inl e \<Rightarrow> (Some e, S)
      | Inr preds \<Rightarrow>
         (case label y_calib preds of
            Inl e \<Rightarrow> (Some e, S)
          | Inr w \<Rightarrow>
             if split_train S then
               (case train_test_split L (np_random_seed L random_seed) X_calib w test_size of
                  Inl e \<Rightarrow> (Some e, S)
                | Inr ((Xtr, Xte, wtr, wte), g) \<Rightarrow>
                    init_coverage_evaluator L
                      (S\<lparr>X_train := Some Xtr, X_test := Some Xte,
                         w_train := Some wtr, w_test := Some wte\<rparr>)
                      g random_seed prune_seed kwargs)
             else
               init_coverage_evaluator L (S\<lparr>X_train := Some X_calib, w_train := Some w\<rparr>)
                 (np_random_seed L random_seed) random_seed prune_seed kwargs))"

section \<open>A small instance of the external libraries\<close>

text \<open>
  The theorems below hold for every library record. To run the definitions on concrete
  data, here is one: an estimator is its type name and, once fitted, the mean of the labels
  it was fitted on; its probability table has the two columns \<open>1 - q\<close> and \<open>q\<close>, where
  \<open>q\<close> is that mean shifted by the row's first feature, or a single column of ones when it saw
  one class only. The generator's state is a counter, a Bernoulli draw is all ones, and
  the split puts the last two rows in the held-out fold.
\<close>

datatype toy_model = Toy (toy_type: string) (toy_rate: "real option")

definition toy_proba_row :: "real \<Rightarrow> real list \<Rightarrow> real list" where
  "toy_proba_row p x =
     (if p = 0 \<or> p = 1 then [1]
      else (case x of [] \<Rightarrow> [1 - p, p] | v # vs \<Rightarrow> [1 - (p + v), p + v]))"

definition toy_quantile :: "npfloat list \<Rightarrow> real \<Rightarrow> error + npfloat" where
  "toy_quantile ts q =
     (case those ts of
        None \<Rightarrow> Inr None
      | Some [] \<Rightarrow> Inl IndexError
      | Some (x # xs) \<Rightarrow> Inr (Some (if q < 1 / 2 then fold min xs x else fold max xs x)))"

definition toy_lib :: "(toy_model, nat, unit) lib" where
  "toy_lib = \<lparr>
     np_random_seed = (\<lambda>s. s),
     binom_rvs = (\<lambda>g p n. Inr (replicate n 1, Suc g)),
     np_random_randint = (\<lambda>g high size.
        if 0 < high \<and> 0 \<le> size
        then Inr (map (\<lambda>i. (g + i) mod nat high) [0..<nat size], Suc g)
        else Inl ValueError),
     train_test_split = (\<lambda>g X w ts.
        if length X = length w \<and> 3 \<le> length X
        then Inr ((take (length X - 2) X, drop (length X - 2) X,
                   take (length X - 2) w, drop (length X - 2) w), Suc g)
        else Inl ValueError),
     train_test_split_seeded = (\<lambda>seed X w ts.
        if length X = length w \<and> 2 \<le> length X
        then Inr (butlast X, [last X], butlast w, [last w])
        else Inl ValueError),
     DecisionTreeClassifier = (\<lambda>rs msl. Toy ''sklearn.tree.DecisionTreeClassifier'' None),
     RandomForestClassifier = (\<lambda>k. Inr (Toy ''sklearn.ensemble.RandomForestClassifier'' None)),
     LogisticGAM = Toy ''pygam.LogisticGAM'' None,
     set_params = (\<lambda>m k. Inr m),
     set_ccp_alpha = (\<lambda>m a. Inr m),
     clone = (\<lambda>m. Inr (Toy (toy_type m) None)),
     model_fit = (\<lambda>g m X w.
        if length X = length w then Inr (Toy (toy_type m) (np_mean w), g) else Inl ValueError),
     model_predict_proba = (\<lambda>m X.
        case toy_rate m of
          None \<Rightarrow> Inl LibraryError
        | Some p \<Rightarrow> Inr (Arr2 (map (toy_proba_row p) X))),
     model_predict = (\<lambda>m X.
        case toy_rate m of
          None \<Rightarrow> Inl LibraryError
        | Some p \<Rightarrow> Inr (Arr1 (map (\<lambda>x. if 1 / 2 \<le> p then 1 else 0) X))),
     cost_complexity_pruning_path = (\<lambda>m X w. Inr [0, 1 / 10]),
     gridsearch = (\<lambda>m X w. Inr m),
     grid_search = (\<lambda>m X w. Inl AttributeError),
     move_to_cpu = (\<lambda>m. Inl AttributeError),
     type_str = toy_type,
     brier_score_loss = (\<lambda>w p.
        if length w = length (flat p) \<and> 0 < length w
        then Inr (sum_list (map2 (\<lambda>a b. (a - b) ^ 2) w (flat p)) / real (length w))
        else Inl ValueError),
     norm_ppf = (\<lambda>q. Some (4 * q - 2)),
     np_quantile = toy_quantile
   \<rparr>"

definition toy_conf :: conf where
  "toy_conf = \<lparr>
     conf_predict_sig = (\<lambda>X a. Inr (map (\<lambda>x. [0, 2]) X)),
     conf_predict_pi = (\<lambda>X. Inr (map (\<lambda>x. 0) X, map (\<lambda>x. 2) X)),
     conf_predict = (\<lambda>X. Inr (map (\<lambda>x. [0, 2]) X))\<rparr>"

definition toy_X :: matrix where
  "toy_X = [[0], [0], [0], [0], [0], [1 / 10], [0]]"

definition toy_y :: vec where
  "toy_y = [1, 1, 1, 1, 3, 1, 1]"

definition toy_S0 :: "toy_model valid_pred_sets" where
  "toy_S0 = init toy_conf (1 / 10) False False (Tag ''RF'') True True"

text \<open>The object that \<open>fit\<close> leaves on this data (lemma \<open>toy_fit\<close> below).\<close>

definition toy_fitted :: "toy_model valid_pred_sets" where
  "toy_fitted = toy_S0\<lparr>X_train := Some [[0], [0], [0], [0], [0]],
     X_test := Some [[1 / 10], [0]], w_train := Some [1, 1, 1, 1, 0],
     w_test := Some [1, 1],
     model := Some (Toy ''sklearn.ensemble.RandomForestClassifier'' (Some (4 / 5)))\<rparr>"

section \<open>Further objects of the small instance\<close>

text \<open>An object whose fitted evaluator saw one class only.\<close>

definition toy_degenerate :: "toy_model valid_pred_sets" where
  "toy_degenerate =
     toy_fitted\<lparr>model := Some (Toy ''sklearn.ensemble.RandomForestClassifier'' (Some 1))\<rparr>"


text \<open>A new object in the mode without a split.\<close>

definition toy_S0_nosplit :: "toy_model valid_pred_sets" where
  "toy_S0_nosplit = init toy_conf (1 / 10) False False (Tag ''RF'') True False"

text \<open>An object holding a tree that is not fitted yet, as \<open>prune_tree\<close> finds it.\<close>

definition toy_unfitted_tree :: "toy_model valid_pred_sets" where
  "toy_unfitted_tree =
     (init toy_conf (1 / 10) False False (Tag ''CART'') True True)
       \<lparr>model := Some (Toy ''sklearn.tree.DecisionTreeClassifier'' None)\<rparr>"

text \<open>The same library with a pruning path that lists no candidate.\<close>

definition toy_lib_empty_path :: "(toy_model, nat, unit) lib" where
  "toy_lib_empty_path = toy_lib\<lparr>cost_complexity_pruning_path := (\<lambda>m X w. Inr [])\<rparr>"

text \<open>What \<open>fit\<close> leaves under the tag \<open>SVM\<close> (lemma \<open>toy_unsupported_fit\<close>).\<close>

definition toy_unsupported :: "toy_model valid_pred_sets" where
  "toy_unsupported = (init toy_conf (1 / 10) False False (Tag ''SVM'') True True)
     \<lparr>X_train := Some [[0], [0], [0], [0], [0]],
      X_test := Some [[1 / 10], [0]], w_train := Some [1, 1, 1, 1, 0],
      w_test := Some [1, 1]\<rparr>"



section \<open>Definitions of the statements\<close>

text \<open>The indicator of the closed interval of row \<open>i\<close>.\<close>

definition covered :: "vec \<Rightarrow> matrix \<Rightarrow> nat \<Rightarrow> real" where
  "covered y preds i = (if preds ! i ! 0 \<le> y ! i \<and> y ! i \<le> preds ! i ! 1 then 1 else 0)"

text \<open>
  The specification's \<open>epb\<close>: \<open>sqrt(sum((t_vec - mean(t_vec))^2) / (B - 1))\<close>, the
  Bessel-corrected sample standard deviation of the \<open>B\<close> statistics.
\<close>

definition sample_sd :: "real list \<Rightarrow> real" where
  "sample_sd ts =
     sqrt (sum_list (map (\<lambda>t. (t - sum_list ts / real (length ts)) ^ 2) ts)
           / (real (length ts) - 1))"

text \<open>
  The specification's words for the pruner: it fits a fresh tree per candidate and scores
  each by Brier loss on the held-out half. \<open>candidate_losses\<close> is the list of these scores, in
  the order of the candidates.
\<close>

fun candidate_losses ::
  "('m, 'g, 'k) lib \<Rightarrow> 'm \<Rightarrow> matrix \<Rightarrow> matrix \<Rightarrow> vec \<Rightarrow> vec \<Rightarrow> real list \<Rightarrow> 'g \<Rightarrow>
   error + real list \<times> 'g" where
  "candidate_losses L m Xtr Xv wtr wv [] g = Inr ([], g)"
| "candidate_losses L m Xtr Xv wtr wv (ccp_alpha # rest) g =
     bindE (clone L m) (\<lambda>c.
     bindE (set_ccp_alpha L c ccp_alpha) (\<lambda>c'.
     bindE (model_fit L g c' Xtr wtr) (\<lambda>(fitted, g').
     bindE (model_predict L fitted Xv) (\<lambda>preds_ccp.
     bindE (brier_score_loss L wv preds_ccp) (\<lambda>loss_ccp.
     bindE (candidate_losses L m Xtr Xv wtr wv rest g') (\<lambda>(ls, g'').
       Inr (loss_ccp # ls, g'')))))))"

text \<open>The choice the loop makes, on the lists of candidates and of their losses.\<close>

fun select_min :: "real list \<Rightarrow> real list \<Rightarrow> real option \<Rightarrow> real option \<Rightarrow> real option" where
  "select_min (a # as) (l # ls) current optim =
     (if less_loss l current then select_min as ls (Some l) (Some a)
      else select_min as ls current optim)"
| "select_min as ls current optim = optim"

section \<open>Basic facts\<close>

lemma bindE_Inl [simp]: "bindE (Inl e) f = Inl e"
  by (simp add: bindE_def)

lemma bindE_Inr [simp]: "bindE (Inr v) f = f v"
  by (simp add: bindE_def)

lemma bindE_eq_Inr: "bindE r f = Inr y \<longleftrightarrow> (\<exists>v. r = Inr v \<and> f v = Inr y)"
  by (cases r) simp_all

lemma attr_None [simp]: "attr None = Inl AttributeError"
  by (simp add: attr_def)

lemma attr_Some [simp]: "attr (Some v) = Inr v"
  by (simp add: attr_def)

section \<open>The coverage indicator is the indicator of the closed interval\<close>

lemma label_loop_step:
  assumes "label_loop y preds (i # rest) w = Inr w'"
  shows "i < length w \<and> label_loop y preds rest (w[i := covered y preds i]) = Inr w'"
  using assms
  by (auto simp: idx1_def idx2_def covered_def split: if_splits sum.splits)

lemma label_loop_spec:
  "label_loop y preds js w = Inr w' \<Longrightarrow> distinct js \<Longrightarrow>
     length w' = length w \<and> (\<forall>i\<in>set js. w' ! i = covered y preds i) \<and>
     (\<forall>i. i \<notin> set js \<longrightarrow> w' ! i = w ! i)"
proof (induction js arbitrary: w)
  case Nil
  then show ?case by simp
next
  case (Cons j js)
  from label_loop_step[OF Cons.prems(1)]
  have lt: "j < length w"
    and rec: "label_loop y preds js (w[j := covered y preds j]) = Inr w'" by simp_all
  from Cons.prems(2) have d: "distinct js" and nj: "j \<notin> set js" by simp_all
  from Cons.IH[OF rec d]
  have len: "length w' = length w"
    and inn: "\<forall>i\<in>set js. w' ! i = covered y preds i"
    and out: "\<forall>i. i \<notin> set js \<longrightarrow> w' ! i = (w[j := covered y preds j]) ! i" by simp_all
  from out nj lt have "w' ! j = covered y preds j" by simp
  moreover from out have "\<forall>i. i \<notin> set (j # js) \<longrightarrow> w' ! i = w ! i" by simp
  ultimately show ?case using len inn by simp
qed

lemma label_loop_total:
  "\<forall>i\<in>set js. i < length y \<and> i < length preds \<and> 2 \<le> length (preds ! i) \<and> i < length w
    \<Longrightarrow> \<exists>w'. label_loop y preds js w = Inr w'"
proof (induction js arbitrary: w)
  case Nil
  then show ?case by simp
next
  case (Cons j js)
  then have "\<forall>i\<in>set js. i < length y \<and> i < length preds \<and> 2 \<le> length (preds ! i)
      \<and> i < length (w[j := v])" for v
    by simp
  from Cons.IH[OF this] Cons.prems show ?case
    by (auto simp: idx1_def idx2_def)
qed

lemma label_covered:
  assumes "label y preds = Inr w"
  shows "length w = length y \<and> (\<forall>i<length y. w ! i = covered y preds i)"
  using label_loop_spec[OF assms[unfolded label_def]] by simp

lemma label_total:
  assumes "length y \<le> length preds" "\<forall>i<length y. 2 \<le> length (preds ! i)"
  shows "\<exists>w. label y preds = Inr w"
  unfolding label_def by (rule label_loop_total) (use assms in auto)

text \<open>
  Claim C7. Whenever the labelling of a target vector \<open>y\<close> against an interval matrix
  returns an indicator \<open>w\<close>, it has one entry per target, entry \<open>i\<close> is 1 if
  \<open>lower\<^sub>i \<le> y\<^sub>i \<le> upper\<^sub>i\<close> (both bounds inclusive) and 0 otherwise, and so every entry
  is 0 or 1. The labelling does return whenever the matrix has a row of two columns for
  every target.
\<close>

theorem label_indicator:
  "(label y preds = Inr w \<longrightarrow>
      length w = length y \<and>
      (\<forall>i<length y. w ! i = (if preds ! i ! 0 \<le> y ! i \<and> y ! i \<le> preds ! i ! 1 then 1 else 0)) \<and>
      (\<forall>x\<in>set w. x = 0 \<or> x = 1)) \<and>
   (length y \<le> length preds \<and> (\<forall>i<length y. 2 \<le> length (preds ! i)) \<longrightarrow>
      (\<exists>w'. label y preds = Inr w'))"
proof (intro conjI impI)
  assume a: "label y preds = Inr w"
  from label_covered[OF a] show "length w = length y" by simp
  from label_covered[OF a]
  show "\<forall>i<length y. w ! i = (if preds ! i ! 0 \<le> y ! i \<and> y ! i \<le> preds ! i ! 1 then 1 else 0)"
    by (simp add: covered_def)
  from label_covered[OF a] have "\<forall>i<length w. w ! i = 0 \<or> w ! i = 1"
    by (simp add: covered_def)
  then show "\<forall>x\<in>set w. x = 0 \<or> x = 1" by (auto simp: in_set_conv_nth)
next
  assume "length y \<le> length preds \<and> (\<forall>i<length y. 2 \<le> length (preds ! i))"
  then show "\<exists>w'. label y preds = Inr w'" using label_total by blast
qed

theorem label_indicator_witness:
  "label [1, 5, 3] [[0, 2], [0, 2], [3, 3]] = Inr [1, 0, 1] \<and>
   length [1, 0, 1 :: real] = length [1, 5, 3 :: real] \<and>
   (\<exists>w'. label [1, 5, 3] [[0, 2], [0, 2], [3, 3]] = Inr w')"
  using label_indicator[of "[1, 5, 3]" "[[0, 2], [0, 2], [3, 3]]" "[1, 0, 1]"]
  by (simp add: label_def idx1_def idx2_def upt_rec)

section \<open>Evaluation on the small instance\<close>

lemma toy_lib_fields:
  "np_random_seed toy_lib s = s"
  "binom_rvs toy_lib g p n = Inr (replicate n 1, Suc g)"
  "np_random_randint toy_lib g high sz =
     (if 0 < high \<and> 0 \<le> sz
      then Inr (map (\<lambda>i. (g + i) mod nat high) [0..<nat sz], Suc g)
      else Inl ValueError)"
  "train_test_split toy_lib g X w ts =
     (if length X = length w \<and> 3 \<le> length X
      then Inr ((take (length X - 2) X, drop (length X - 2) X,
                 take (length X - 2) w, drop (length X - 2) w), Suc g)
      else Inl ValueError)"
  "train_test_split_seeded toy_lib seed X w ts =
     (if length X = length w \<and> 2 \<le> length X
      then Inr (butlast X, [last X], butlast w, [last w])
      else Inl ValueError)"
  "DecisionTreeClassifier toy_lib rs msl = Toy ''sklearn.tree.DecisionTreeClassifier'' None"
  "RandomForestClassifier toy_lib k = Inr (Toy ''sklearn.ensemble.RandomForestClassifier'' None)"
  "LogisticGAM toy_lib = Toy ''pygam.LogisticGAM'' None"
  "set_params toy_lib m k = Inr m"
  "set_ccp_alpha toy_lib m a = Inr m"
  "clone toy_lib m = Inr (Toy (toy_type m) None)"
  "model_fit toy_lib g m X w =
     (if length X = length w then Inr (Toy (toy_type m) (np_mean w), g) else Inl ValueError)"
  "model_predict_proba toy_lib m X =
     (case toy_rate m of
        None \<Rightarrow> Inl LibraryError
      | Some p \<Rightarrow> Inr (Arr2 (map (toy_proba_row p) X)))"
  "model_predict toy_lib m X =
     (case toy_rate m of
        None \<Rightarrow> Inl LibraryError
      | Some p \<Rightarrow> Inr (Arr1 (map (\<lambda>x. if 1 / 2 \<le> p then 1 else 0) X)))"
  "cost_complexity_pruning_path toy_lib m X w = Inr [0, 1 / 10]"
  "gridsearch toy_lib m X w = Inr m"
  "grid_search toy_lib m X w = Inl AttributeError"
  "move_to_cpu toy_lib m = Inl AttributeError"
  "type_str toy_lib = toy_type"
  "brier_score_loss toy_lib wv pv =
     (if length wv = length (flat pv) \<and> 0 < length wv
      then Inr (sum_list (map2 (\<lambda>a b. (a - b) ^ 2) wv (flat pv)) / real (length wv))
      else Inl ValueError)"
  "norm_ppf toy_lib q = Some (4 * q - 2)"
  "np_quantile toy_lib = toy_quantile"
  by (simp_all add: toy_lib_def)

lemma toy_fitted_fields:
  "alpha toy_fitted = 1 / 10"
  "coverage_evaluator toy_fitted = Tag ''RF''"
  "split_train toy_fitted = True"
  "X_train toy_fitted = Some [[0], [0], [0], [0], [0]]"
  "X_test toy_fitted = Some [[1 / 10], [0]]"
  "w_train toy_fitted = Some [1, 1, 1, 1, 0]"
  "model toy_fitted = Some (Toy ''sklearn.ensemble.RandomForestClassifier'' (Some (4 / 5)))"
  by (simp_all add: toy_fitted_def toy_S0_def init_def)

lemmas toy_simps = toy_lib_fields toy_fitted_fields toy_proba_row_def toy_quantile_def

lemmas np_simps = len_row0_def column1_def abs_dev_def np_mean_def np_max_def np_greater_def
  bool_mean_def fgt_def take_idx_def

lemma toy_fit:
  "fit toy_lib toy_S0 toy_X toy_y 1250 650 (1 / 5) () = (None, toy_fitted)"
  by (simp add: fit_def predict_intervals_def toy_lib_fields toy_conf_def toy_X_def toy_y_def
      toy_S0_def init_def toy_fitted_def label_def idx1_def idx2_def upt_rec
      init_coverage_evaluator_def fit_on_train_def np_mean_def)

lemma toy_compute_dif: "compute_dif toy_lib toy_fitted = Inr (Some (1 / 20), 1 / 10)"
  by (simp add: compute_dif_def predict_def is_table_family_def toy_simps np_simps)

lemma toy_mc_step:
  "mc_loop toy_lib toy_fitted (Suc n) g =
     bindE (mc_loop toy_lib toy_fitted n (Suc g)) (\<lambda>(ts, g3). Inr (Some (1 / 10) # ts, g3))"
  by (simp add: retrain_def is_table_family_def toy_simps np_simps)

lemma toy_mc_loop:
  "mc_loop toy_lib toy_fitted n g = Inr (replicate n (Some (1 / 10)), g + n)"
proof (induction n arbitrary: g)
  case 0
  then show ?case by simp
next
  case (Suc n)
  show ?case unfolding toy_mc_step by (simp add: Suc.IH)
qed

section \<open>\<^verbatim>\<open>monte_carlo_test\<close> compares with a pair\<close>

lemma mc_loop_length: "mc_loop L S n g = Inr (ts, g') \<Longrightarrow> length ts = n"
proof (induction n arbitrary: g ts g')
  case 0
  then show ?case by simp
next
  case (Suc n)
  then show ?case
    by (auto simp: bindE_eq_Inr split: prod.splits)
qed

lemma np_greater_pair:
  "np_greater t_b [a, b] = Inr gt \<Longrightarrow> length t_b = 1 \<or> length t_b = 2"
  by (auto simp: np_greater_def split: if_splits)

text \<open>
  Claim C1 fails on the code. \<^verbatim>\<open>monte_carlo_test\<close> takes as \<^verbatim>\<open>t_obs\<close> the pair that
  \<^verbatim>\<open>compute_dif\<close> returns (mean and maximum), returns that pair as the observed statistic,
  and compares the \<open>B\<close> simulated statistics with the array of the pair's two entries.
  So the sequential test raises for every number of repetitions other than 1 and 2.
\<close>

theorem mc_test_broadcast_fails:
  assumes "B \<noteq> 1" "B \<noteq> 2"
  shows "\<exists>e. monte_carlo_test L S B random_seed False = Inl e"
proof (cases "monte_carlo_test L S B random_seed False")
  case (Inl e)
  then show ?thesis by blast
next
  case (Inr res)
  then obtain t_obs t_b gt where
    tb: "mc_t_b L S B random_seed False = Inr t_b"
    and gt: "np_greater t_b [fst t_obs, Some (snd t_obs)] = Inr gt"
    by (auto simp: monte_carlo_test_def bindE_eq_Inr)
  from tb have "length t_b = nat B" "0 \<le> B"
    by (auto simp: mc_t_b_def bindE_eq_Inr split: if_splits dest: mc_loop_length)
  with np_greater_pair[OF gt] assms show ?thesis by auto
qed

lemma toy_mc_3: "monte_carlo_test toy_lib toy_fitted 3 1250 False = Inl ValueError"
  by (simp add: monte_carlo_test_def toy_compute_dif mc_t_b_def toy_mc_loop np_greater_def)

theorem mc_test_broadcast_fails_witness:
  "(3 :: int) \<noteq> 1 \<and> (3 :: int) \<noteq> 2 \<and>
   monte_carlo_test toy_lib toy_fitted 3 1250 False = Inl ValueError"
  using mc_test_broadcast_fails[of 3 toy_lib toy_fitted 1250]
  by (simp add: toy_mc_3)

text \<open>
  With two repetitions the test returns: both simulated statistics are \<open>1/10\<close> and exceed
  the observed mean \<open>1/20\<close>, so the fraction the claim describes is 1; the code compares
  the second one with the observed maximum \<open>1/10\<close> and returns \<open>1/2\<close>.
\<close>

lemma toy_mc_2:
  "monte_carlo_test toy_lib toy_fitted 2 1250 False =
     Inr \<lparr>p_value = Some (1 / 2), observed_statistic = (Some (1 / 20), 1 / 10)\<rparr> \<and>
   mc_t_b toy_lib toy_fitted 2 1250 False = Inr [Some (1 / 10), Some (1 / 10)]"
  by (simp add: monte_carlo_test_def toy_compute_dif mc_t_b_def toy_mc_loop np_simps numeral_2_eq_2
      del: mc_loop.simps)

section \<open>The parallel bootstrap passes nine arguments to a function of eight\<close>

lemma bootstrap_par_arity:
  "call_bootstrap_par L [PInt B, PFloat a, PEvaluator ce, PModel m, PFloat a',
      PMatrix Xtr, PVector wtr, PMatrix Xte, PInt seed] = Inl TypeError"
  by (simp add: call_bootstrap_par_def)

lemma boot_dispatch_raises:
  assumes "model S = Some m" "X_train S = Some Xtr" "w_train S = Some wtr" "X_test S = Some Xte"
  shows "boot_dispatch L S B (seed # rest) = Inl TypeError"
  using assms by (simp add: bootstrap_par_arity)

text \<open>
  Claim C2 fails on the code. In parallel mode \<^verbatim>\<open>bootstrap_ci\<close> hands \<^verbatim>\<open>bootstrap_par\<close> a
  tuple of nine values (\<^verbatim>\<open>self.alpha\<close> stands in it twice) for its eight parameters, so
  every repetition raises \<^verbatim>\<open>TypeError\<close> and so does the call, on any fitted analysis and
  as soon as one seed is drawn; the sequential loop on the same object returns.
\<close>

theorem bootstrap_ci_par_type_error:
  assumes "model S = Some m" "X_train S = Some Xtr" "w_train S = Some wtr" "X_test S = Some Xte"
    and "predict L S Xte = Inr (Some r)"
    and "np_random_randint L (np_random_seed L random_seed) 100000000 B = Inr (seed # rest, g)"
  shows "bootstrap_ci L S B sig_b random_seed True = Inl TypeError"
  using assms
  by (simp add: bootstrap_ci_def bootstrap_t_vec_def boot_dispatch_raises del: boot_dispatch.simps)

lemma toy_predict:
  "predict toy_lib toy_fitted [[1 / 10], [0]] = Inr (Some (Arr1 [9 / 10, 4 / 5]))"
  by (simp add: predict_def is_table_family_def toy_simps np_simps)

lemma toy_boot_step1:
  "boot_loop toy_lib toy_fitted 3 (Suc n) 1250 =
     bindE (boot_loop toy_lib toy_fitted 3 n 1251) (\<lambda>(ts, g3). Inr (Some (1 / 10) # ts, g3))"
  by (simp add: retrain_def is_table_family_def toy_simps np_simps upt_rec)

lemma toy_boot_step2:
  "boot_loop toy_lib toy_fitted 3 (Suc n) 1251 =
     bindE (boot_loop toy_lib toy_fitted 3 n 1252) (\<lambda>(ts, g3). Inr (Some (1 / 10) # ts, g3))"
  by (simp add: retrain_def is_table_family_def toy_simps np_simps upt_rec)

lemma toy_boot_step3:
  "boot_loop toy_lib toy_fitted 3 (Suc n) 1252 =
     bindE (boot_loop toy_lib toy_fitted 3 n 1253) (\<lambda>(ts, g3). Inr (Some (11 / 60) # ts, g3))"
  by (simp add: retrain_def is_table_family_def toy_simps np_simps upt_rec)

lemma toy_boot_seq:
  "bootstrap_t_vec toy_lib toy_fitted 3 1250 False = Inr [Some (1 / 10), Some (1 / 10), Some (11 / 60)]"
  by (simp add: bootstrap_t_vec_def numeral_3_eq_3 toy_lib_fields toy_boot_step1 toy_boot_step2
      toy_boot_step3 del: boot_loop.simps) simp

lemma toy_boot_seq_returns:
  "\<exists>res. bootstrap_ci toy_lib toy_fitted 3 (1 / 20) 1250 False = Inr res"
  by (simp add: bootstrap_ci_def toy_predict toy_boot_seq epb_def fsqrt_def fsum_def fmean_def
      lift2_def np_mean_def abs_dev_def toy_simps)

theorem bootstrap_ci_par_type_error_witness:
  "bootstrap_ci toy_lib toy_fitted 3 (1 / 20) 1250 True = Inl TypeError \<and>
   (\<exists>res. bootstrap_ci toy_lib toy_fitted 3 (1 / 20) 1250 False = Inr res)"
  using bootstrap_ci_par_type_error[of toy_fitted _ _ _ _ toy_lib "Arr1 [9 / 10, 4 / 5]" 1250 3 1250 "[1251, 1252]" 1251 "1 / 20"]
  by (simp add: toy_predict toy_simps upt_rec toy_boot_seq_returns)

section \<open>Probability tables of one and of two columns\<close>

lemma one_column_flat: "\<forall>r\<in>set tab. length r = 1 \<Longrightarrow> concat tab = map (\<lambda>r. r ! 0) tab"
proof (induction tab)
  case Nil
  then show ?case by simp
next
  case (Cons r tab)
  then obtain x where "r = [x]" by (cases r) auto
  with Cons show ?case by simp
qed

lemma len_row0_table: "tab \<noteq> [] \<Longrightarrow> len_row0 (Arr2 tab) = Inr (length (hd tab))"
  by (cases tab) (simp_all add: len_row0_def)

lemma column1_two: "\<forall>r\<in>set tab. length r = 2 \<Longrightarrow> column1 (Arr2 tab) = Inr (Arr1 (map (\<lambda>r. r ! 1) tab))"
  by (simp add: column1_def list_all_iff)

lemma table_result:
  assumes "tab \<noteq> []"
  shows "(\<forall>r\<in>set tab. length r = 1) \<Longrightarrow>
           bindE (len_row0 (Arr2 tab)) (\<lambda>n. if n = 1 then Inr (f (Arr2 tab))
              else bindE (column1 (Arr2 tab)) (\<lambda>c. Inr (f c))) = Inr (f (Arr2 tab))"
    and "(\<forall>r\<in>set tab. length r = 2) \<Longrightarrow>
           bindE (len_row0 (Arr2 tab)) (\<lambda>n. if n = 1 then Inr (f (Arr2 tab))
              else bindE (column1 (Arr2 tab)) (\<lambda>c. Inr (f c))) = Inr (f (Arr1 (map (\<lambda>r. r ! 1) tab)))"
  using assms by (simp_all add: len_row0_table column1_two)

lemma predict_table:
  assumes "model S = Some m" "is_table_family L (coverage_evaluator S) (Inr m) = Inr True"
    and "model_predict_proba L m X = Inr (Arr2 tab)" "tab \<noteq> []"
  shows "(\<forall>r\<in>set tab. length r = 1) \<Longrightarrow> predict L S X = Inr (Some (Arr2 tab))"
    and "(\<forall>r\<in>set tab. length r = 2) \<Longrightarrow> predict L S X = Inr (Some (Arr1 (map (\<lambda>r. r ! 1) tab)))"
  using assms table_result[of tab Some] by (simp_all add: predict_def)

lemma retrain_par_table:
  assumes "is_table_family L ce (Inr m) = Inr True" "clone L m = Inr c"
    and "model_fit L g c Xtr new_w = Inr (model_temp, g')"
    and "model_predict_proba L model_temp Xte = Inr (Arr2 tab)" "tab \<noteq> []"
  shows "(\<forall>r\<in>set tab. length r = 1) \<Longrightarrow> retrain_par L ce m Xtr new_w Xte g = Inr (Arr2 tab, g')"
    and "(\<forall>r\<in>set tab. length r = 2) \<Longrightarrow>
           retrain_par L ce m Xtr new_w Xte g = Inr (Arr1 (map (\<lambda>r. r ! 1) tab), g')"
  using assms table_result[of tab "\<lambda>a. (a, g')"] by (simp_all add: retrain_par_def)

lemma retrain_table:
  assumes "model S = Some m" "is_table_family L (coverage_evaluator S) (Inr m) = Inr True"
    and "clone L m = Inr c" "model_fit L g c Xtr new_w = Inr (model_temp, g')"
    and "X_test S = Some Xt"
    and "model_predict_proba L model_temp Xt = Inr (Arr2 tab)" "tab \<noteq> []"
  shows "(\<forall>r\<in>set tab. length r = 1) \<Longrightarrow> retrain L S Xtr new_w Xte g = Inr (Arr2 tab, g')"
    and "(\<forall>r\<in>set tab. length r = 2) \<Longrightarrow>
           retrain L S Xtr new_w Xte g = Inr (Arr1 (map (\<lambda>r. r ! 1) tab), g')"
  using assms table_result[of tab "\<lambda>a. (a, g')"] by (simp_all add: retrain_def)

text \<open>
  Claim C9. In the branch for estimators that return a probability table (the tag
  \<^verbatim>\<open>"RF"\<close> or an sklearn type), applied to a table with at least one row: when every row
  has one column, \<^verbatim>\<open>predict\<close> returns the table itself, whose entries are that column;
  when every row has two columns, it returns the column at index 1. The same holds for the
  refits of \<^verbatim>\<open>retrain_par\<close> and \<^verbatim>\<open>retrain\<close>. In the one-column case the call returns:
  it raises nothing.
\<close>

theorem probability_table_columns:
  "(model S = Some m \<and> is_table_family L (coverage_evaluator S) (Inr m) = Inr True \<and>
    model_predict_proba L m X = Inr (Arr2 tab) \<and> tab \<noteq> [] \<longrightarrow>
      ((\<forall>r\<in>set tab. length r = 1) \<longrightarrow>
         predict L S X = Inr (Some (Arr2 tab)) \<and> flat (Arr2 tab) = map (\<lambda>r. r ! 0) tab) \<and>
      ((\<forall>r\<in>set tab. length r = 2) \<longrightarrow>
         predict L S X = Inr (Some (Arr1 (map (\<lambda>r. r ! 1) tab))))) \<and>
   (is_table_family L ce (Inr m') = Inr True \<and> clone L m' = Inr c \<and>
    model_fit L g c Xtr new_w = Inr (model_temp, g') \<and>
    model_predict_proba L model_temp Xte = Inr (Arr2 tab') \<and> tab' \<noteq> [] \<longrightarrow>
      ((\<forall>r\<in>set tab'. length r = 1) \<longrightarrow>
         retrain_par L ce m' Xtr new_w Xte g = Inr (Arr2 tab', g') \<and>
         flat (Arr2 tab') = map (\<lambda>r. r ! 0) tab') \<and>
      ((\<forall>r\<in>set tab'. length r = 2) \<longrightarrow>
         retrain_par L ce m' Xtr new_w Xte g = Inr (Arr1 (map (\<lambda>r. r ! 1) tab'), g'))) \<and>
   (model S = Some m' \<and> is_table_family L (coverage_evaluator S) (Inr m') = Inr True \<and>
    clone L m' = Inr c \<and> model_fit L g c Xtr new_w = Inr (model_temp, g') \<and>
    X_test S = Some Xte \<and>
    model_predict_proba L model_temp Xte = Inr (Arr2 tab') \<and> tab' \<noteq> [] \<longrightarrow>
      ((\<forall>r\<in>set tab'. length r = 1) \<longrightarrow>
         retrain L S Xtr new_w Xte g = Inr (Arr2 tab', g')) \<and>
      ((\<forall>r\<in>set tab'. length r = 2) \<longrightarrow>
         retrain L S Xtr new_w Xte g = Inr (Arr1 (map (\<lambda>r. r ! 1) tab'), g')))"
  using predict_table[of S m L X tab] retrain_par_table[of L ce m' c g Xtr new_w model_temp g' Xte tab']
    retrain_table[of S m' L c g Xtr new_w model_temp g' Xte tab' Xte] one_column_flat[of tab]
    one_column_flat[of tab']
  by simp

lemma toy_retrain_par_ones:
  "retrain_par toy_lib (Tag ''RF'') (Toy ''sklearn.ensemble.RandomForestClassifier'' (Some (4 / 5)))
      [[0], [0], [0], [0], [0]] [1, 1, 1, 1, 1] [[1 / 10], [0]] 7 = Inr (Arr2 [[1], [1]], 7)"
  by (simp add: retrain_par_def is_table_family_def toy_simps np_simps)

lemma toy_degenerate_predict:
  "predict toy_lib toy_degenerate [[1 / 10], [0]] = Inr (Some (Arr2 [[1], [1]]))"
  by (simp add: predict_def is_table_family_def toy_degenerate_def toy_simps np_simps)

lemma toy_retrain_ones:
  "retrain toy_lib toy_fitted [[0], [0], [0], [0], [0]] [1, 1, 1, 1, 1] [[1 / 10], [0]] 7
     = Inr (Arr2 [[1], [1]], 7)"
  by (simp add: retrain_def is_table_family_def toy_simps np_simps)

theorem probability_table_columns_witness:
  "model_predict_proba toy_lib (Toy ''sklearn.ensemble.RandomForestClassifier'' (Some 1))
      [[1 / 10], [0]] = Inr (Arr2 [[1], [1]]) \<and>
   predict toy_lib toy_degenerate [[1 / 10], [0]] = Inr (Some (Arr2 [[1], [1]])) \<and>
   flat (Arr2 [[1], [1]]) = [1, 1] \<and>
   model_predict_proba toy_lib (Toy ''sklearn.ensemble.RandomForestClassifier'' (Some (4 / 5)))
      [[1 / 10], [0]] = Inr (Arr2 [[1 / 10, 9 / 10], [1 / 5, 4 / 5]]) \<and>
   predict toy_lib toy_fitted [[1 / 10], [0]] = Inr (Some (Arr1 [9 / 10, 4 / 5])) \<and>
   retrain_par toy_lib (Tag ''RF'') (Toy ''sklearn.ensemble.RandomForestClassifier'' (Some (4 / 5)))
      [[0], [0], [0], [0], [0]] [1, 1, 1, 1, 1] [[1 / 10], [0]] 7 = Inr (Arr2 [[1], [1]], 7) \<and>
   retrain toy_lib toy_fitted [[0], [0], [0], [0], [0]] [1, 1, 1, 1, 1] [[1 / 10], [0]] 7
     = Inr (Arr2 [[1], [1]], 7)"
  using probability_table_columns[of toy_degenerate
      "Toy ''sklearn.ensemble.RandomForestClassifier'' (Some 1)" toy_lib "[[1 / 10], [0]]"
      "[[1], [1]]" "Tag ''RF''" "Toy ''sklearn.ensemble.RandomForestClassifier'' (Some (4 / 5))"
      "Toy ''sklearn.ensemble.RandomForestClassifier'' None" 7 "[[0], [0], [0], [0], [0]]"
      "[1, 1, 1, 1, 1]" "Toy ''sklearn.ensemble.RandomForestClassifier'' (Some 1)" 7
      "[[1 / 10], [0]]" "[[1], [1]]"]
    probability_table_columns[of toy_fitted
      "Toy ''sklearn.ensemble.RandomForestClassifier'' (Some (4 / 5))" toy_lib "[[1 / 10], [0]]"
      "[[1 / 10, 9 / 10], [1 / 5, 4 / 5]]"]
  by (simp add: toy_degenerate_predict toy_predict toy_retrain_par_ones toy_retrain_ones toy_simps)

section \<open>The mode without a held-out fold\<close>











lemma monte_carlo_no_test_par:
  assumes "X_test S = None" "X_train S = Some Xtr" "w_train S = Some wtr" "model S = Some m"
    and "compute_dif L S = Inr t"
    and "np_random_randint L (np_random_seed L seed) 100000000 B = Inr (s # rest, g)"
  shows "monte_carlo_test L S B seed True = Inl AttributeError"
  using assms by (simp add: monte_carlo_test_def mc_t_b_def)
















section \<open>The bootstrap resample has \<open>B\<close> rows\<close>










section \<open>The normal-approximation interval of the bootstrap\<close>

lemma those_map_Some: "those (map Some xs) = Some xs"
  by (induction xs) simp_all

lemma fmean_finite: "fmean (map Some ts) = np_mean ts"
  by (simp add: fmean_def those_map_Some)

lemma sum_squares_nonneg: "0 \<le> sum_list (map (\<lambda>t. (t - c) ^ 2) (ts :: real list))"
  by (rule sum_list_nonneg) auto

lemma sample_sd_nonneg: "0 \<le> sample_sd ts"
proof (cases "2 \<le> length ts")
  case True
  then show ?thesis by (simp add: sample_sd_def sum_squares_nonneg)
next
  case False
  then consider "ts = []" | x where "ts = [x]"
    by (cases ts; cases "tl ts") auto
  then show ?thesis by cases (simp_all add: sample_sd_def)
qed

lemma epb_finite:
  assumes "B \<noteq> 1" "int (length ts) = B"
  shows "epb B (map Some ts) = Inr (Some (sample_sd ts))"
proof (cases "ts = []")
  case True
  with assms show ?thesis
    by (simp add: epb_def fsum_def lift2_def fsqrt_def sample_sd_def)
next
  case ne: False
  with assms have two: "2 \<le> length ts" by (cases ts; cases "tl ts") auto
  let ?m = "sum_list ts / real (length ts)"
  let ?s = "sum_list (map (\<lambda>t. (t - ?m) ^ 2) ts)"
  have sq: "map (\<lambda>t. map_option (\<lambda>d. d ^ 2) (lift2 (-) t (fmean (map Some ts)))) (map Some ts)
      = map Some (map (\<lambda>t. (t - ?m) ^ 2) ts)"
    using ne by (simp add: fmean_finite np_mean_def lift2_def comp_def)
  have fs: "fsum (map Some (map (\<lambda>t. (t - ?m) ^ 2) ts)) = Some ?s"
    unfolding fsum_def those_map_Some by simp
  from assms have b1: "real_of_int (B - 1) = real (length ts) - 1" by auto
  from two have pos: "0 < real (length ts) - 1" by auto
  have nn: "\<not> 1 / (real (length ts) - 1) * ?s < 0"
    using pos sum_squares_nonneg[of ?m ts] by (simp add: not_less)
  from assms have "B - 1 \<noteq> 0" by auto
  then show ?thesis
    unfolding epb_def sq fs b1 using nn
    by (simp add: lift2_def fsqrt_def sample_sd_def)
qed

lemma epb_returns: "epb B tv = Inr e \<Longrightarrow> B \<noteq> 1"
  by (auto simp: epb_def split: if_splits)

lemma boot_loop_length: "boot_loop L S B n g = Inr (ts, g') \<Longrightarrow> length ts = n"
proof (induction n arbitrary: g ts g')
  case 0
  then show ?case by simp
next
  case (Suc n)
  then show ?case
    by (auto simp: bindE_eq_Inr split: prod.splits)
qed

lemma bootstrap_t_vec_length:
  "bootstrap_t_vec L S B seed False = Inr tv \<Longrightarrow> int (length tv) = B"
  by (auto simp: bootstrap_t_vec_def bindE_eq_Inr split: if_splits dest: boot_loop_length)

lemma bootstrap_ci_returns:
  assumes "bootstrap_ci L S B sig_b seed par = Inr res"
  shows "\<exists>Xte v tv e. X_test S = Some Xte \<and> predict L S Xte = Inr (Some v) \<and>
      boot_t_obs res = np_mean (abs_dev v (alpha S)) \<and>
      bootstrap_t_vec L S B seed par = Inr tv \<and> epb B tv = Inr e \<and>
      se_interval res =
        (lift2 (-) (boot_t_obs res) (lift2 (*) (norm_ppf L (1 - sig_b / 2)) e),
         lift2 (+) (boot_t_obs res) (lift2 (*) (norm_ppf L (1 - sig_b / 2)) e))"
  using assms unfolding bootstrap_ci_def
  by (auto simp: bindE_eq_Inr attr_def split: option.splits)

text \<open>
  Claim C8. When \<^verbatim>\<open>bootstrap_ci\<close> returns, its \<open>B\<close> bootstrap statistics, its observed
  statistic \<open>t\<close> and the quantile \<open>z\<close> being numbers (not \<^verbatim>\<open>nan\<close>), the SE interval is
  \<open>[t - z * epb, t + z * epb]\<close> with \<open>epb\<close> the Bessel-corrected sample standard deviation of
  the statistics; its midpoint is \<open>t\<close>, and its lower bound is at most its upper bound when
  \<open>z\<close> is not negative, as the standard-normal quantile at \<open>1 - sig_b / 2\<close> is for a
  significance level \<open>sig_b\<close> of at most 1. In sequential mode the list of statistics has
  length \<open>B\<close> by itself.
\<close>

theorem se_interval_symmetric:
  assumes "bootstrap_ci L S B sig_b seed par = Inr res"
    and "bootstrap_t_vec L S B seed par = Inr (map Some ts)"
    and "par \<Longrightarrow> int (length ts) = B"
    and "boot_t_obs res = Some t" "norm_ppf L (1 - sig_b / 2) = Some z"
  shows "se_interval res = (Some (t - z * sample_sd ts), Some (t + z * sample_sd ts)) \<and>
     ((t - z * sample_sd ts) + (t + z * sample_sd ts)) / 2 = t \<and>
     0 \<le> sample_sd ts \<and>
     (0 \<le> z \<longrightarrow> t - z * sample_sd ts \<le> t + z * sample_sd ts)"
proof -
  have len: "int (length ts) = B"
  proof (cases par)
    case True
    with assms(3) show ?thesis by simp
  next
    case False
    with bootstrap_t_vec_length[of L S B seed "map Some ts"] assms(2) show ?thesis by simp
  qed
  from bootstrap_ci_returns[OF assms(1)] assms(2) obtain e where
    e: "epb B (map Some ts) = Inr e"
    and se: "se_interval res =
        (lift2 (-) (boot_t_obs res) (lift2 (*) (norm_ppf L (1 - sig_b / 2)) e),
         lift2 (+) (boot_t_obs res) (lift2 (*) (norm_ppf L (1 - sig_b / 2)) e))"
    by auto
  from e epb_finite[OF epb_returns[OF e] len] have "e = Some (sample_sd ts)" by simp
  with se assms(4,5)
  have 1: "se_interval res = (Some (t - z * sample_sd ts), Some (t + z * sample_sd ts))"
    by (simp add: lift2_def)
  have "0 \<le> z \<Longrightarrow> t - z * sample_sd ts \<le> t + z * sample_sd ts"
    using sample_sd_nonneg[of ts] by (simp add: mult_nonneg_nonneg)
  with 1 sample_sd_nonneg[of ts] show ?thesis by simp
qed

theorem se_interval_symmetric_witness:
  "\<exists>res. bootstrap_ci toy_lib toy_fitted 3 (1 / 20) 1250 False = Inr res \<and>
     bootstrap_t_vec toy_lib toy_fitted 3 1250 False = Inr (map Some [1 / 10, 1 / 10, 11 / 60]) \<and>
     boot_t_obs res = Some (1 / 20) \<and> norm_ppf toy_lib (1 - (1 / 20) / 2) = Some (19 / 10) \<and>
     se_interval res = (Some (1 / 20 - 19 / 10 * sample_sd [1 / 10, 1 / 10, 11 / 60]),
                        Some (1 / 20 + 19 / 10 * sample_sd [1 / 10, 1 / 10, 11 / 60])) \<and>
     1 / 20 - 19 / 10 * sample_sd [1 / 10, 1 / 10, 11 / 60]
       \<le> 1 / 20 + 19 / 10 * sample_sd [1 / 10, 1 / 10, 11 / 60]"
proof -
  from toy_boot_seq_returns obtain res where
    r: "bootstrap_ci toy_lib toy_fitted 3 (1 / 20) 1250 False = Inr res" by blast
  have tv: "bootstrap_t_vec toy_lib toy_fitted 3 1250 False = Inr (map Some [1 / 10, 1 / 10, 11 / 60])"
    by (simp add: toy_boot_seq)
  from bootstrap_ci_returns[OF r] have t: "boot_t_obs res = Some (1 / 20)"
    by (auto simp: toy_fitted_fields toy_predict np_simps)
  have z: "norm_ppf toy_lib (1 - (1 / 20) / 2) = Some (19 / 10)"
    by (simp add: toy_lib_fields)
  from se_interval_symmetric[OF r tv _ t z] r tv t z show ?thesis by auto
qed

section \<open>The pruning strength of lowest held-out loss\<close>

lemma candidate_losses_length:
  "candidate_losses L m Xtr Xv wtr wv cands g = Inr (ls, g') \<Longrightarrow> length ls = length cands"
proof (induction cands arbitrary: g ls)
  case Nil
  then show ?case by simp
next
  case (Cons a cands)
  then show ?case by (auto simp: bindE_eq_Inr split: prod.splits)
qed

lemma prune_loop_select:
  "candidate_losses L m Xtr Xv wtr wv cands g = Inr (ls, g') \<Longrightarrow>
   prune_loop L m Xtr Xv wtr wv cands current optim g = Inr (select_min cands ls current optim, g')"
proof (induction cands arbitrary: g ls current optim)
  case Nil
  then show ?case by simp
next
  case (Cons a cands)
  from Cons.prems obtain c c' fitted g1 p l ls' where
    st: "clone L m = Inr c" "set_ccp_alpha L c a = Inr c'" "model_fit L g c' Xtr wtr = Inr (fitted, g1)"
      "model_predict L fitted Xv = Inr p" "brier_score_loss L wv p = Inr l"
    and rest: "candidate_losses L m Xtr Xv wtr wv cands g1 = Inr (ls', g')"
    and ls: "ls = l # ls'"
    by (auto simp: bindE_eq_Inr split: prod.splits)
  show ?case using st ls Cons.IH[OF rest] by simp
qed

lemma less_loss_trans: "l' < l \<Longrightarrow> less_loss l current \<Longrightarrow> less_loss l' current"
  by (cases current) (auto simp: less_loss_def)

lemma not_less_loss: "\<not> less_loss l current \<Longrightarrow> less_loss l' current \<Longrightarrow> l' < l"
  by (cases current) (auto simp: less_loss_def)

lemma select_min_spec:
  "length ls = length cands \<Longrightarrow>
     (select_min cands ls current optim = optim \<and> (\<forall>j<length cands. \<not> less_loss (ls ! j) current)) \<or>
     (\<exists>k<length cands. select_min cands ls current optim = Some (cands ! k) \<and>
        less_loss (ls ! k) current \<and>
        (\<forall>j<length cands. ls ! k \<le> ls ! j) \<and> (\<forall>j<k. ls ! k < ls ! j))"
proof (induction cands arbitrary: ls current optim)
  case Nil
  then show ?case by simp
next
  case (Cons a cands)
  then obtain l ls' where ls: "ls = l # ls'" and len: "length ls' = length cands"
    by (cases ls) auto
  show ?case
  proof (cases "less_loss l current")
    case True
    from Cons.IH[OF len, of "Some l" "Some a"]
    show ?thesis
    proof
      assume h: "select_min cands ls' (Some l) (Some a) = Some a \<and>
          (\<forall>j<length cands. \<not> less_loss (ls' ! j) (Some l))"
      then have "\<forall>j<length cands. l \<le> ls' ! j" by (auto simp: less_loss_def not_less)
      then have "\<forall>j<length (a # cands). (l # ls') ! 0 \<le> (l # ls') ! j"
        by (auto simp: nth_Cons split: nat.splits)
      with h True ls have "0 < length (a # cands) \<and>
          select_min (a # cands) ls current optim = Some ((a # cands) ! 0) \<and>
          less_loss (ls ! 0) current \<and>
          (\<forall>j<length (a # cands). ls ! 0 \<le> ls ! j) \<and> (\<forall>j<0. ls ! 0 < ls ! j)"
        by simp
      then show ?thesis by blast
    next
      assume "\<exists>k<length cands. select_min cands ls' (Some l) (Some a) = Some (cands ! k) \<and>
          less_loss (ls' ! k) (Some l) \<and>
          (\<forall>j<length cands. ls' ! k \<le> ls' ! j) \<and> (\<forall>j<k. ls' ! k < ls' ! j)"
      then obtain k where k: "k < length cands"
        and sel: "select_min cands ls' (Some l) (Some a) = Some (cands ! k)"
        and lt: "ls' ! k < l"
        and mn: "\<forall>j<length cands. ls' ! k \<le> ls' ! j" and fst: "\<forall>j<k. ls' ! k < ls' ! j"
        by (auto simp: less_loss_def)
      have "Suc k < length (a # cands)" using k by simp
      moreover have "select_min (a # cands) ls current optim = Some ((a # cands) ! Suc k)"
        using True ls sel by simp
      moreover have "less_loss (ls ! Suc k) current"
        using less_loss_trans[OF lt True] ls by simp
      moreover have "\<forall>j<length (a # cands). ls ! Suc k \<le> ls ! j"
        using mn lt ls by (auto simp: nth_Cons split: nat.splits)
      moreover have "\<forall>j<Suc k. ls ! Suc k < ls ! j"
        using fst lt ls by (auto simp: nth_Cons split: nat.splits)
      ultimately show ?thesis by blast
    qed
  next
    case False
    from Cons.IH[OF len, of current optim]
    show ?thesis
    proof
      assume h: "select_min cands ls' current optim = optim \<and>
          (\<forall>j<length cands. \<not> less_loss (ls' ! j) current)"
      then have "\<forall>j<length (a # cands). \<not> less_loss (ls ! j) current"
        using False ls by (auto simp: nth_Cons split: nat.splits)
      with h False ls show ?thesis by simp
    next
      assume "\<exists>k<length cands. select_min cands ls' current optim = Some (cands ! k) \<and>
          less_loss (ls' ! k) current \<and>
          (\<forall>j<length cands. ls' ! k \<le> ls' ! j) \<and> (\<forall>j<k. ls' ! k < ls' ! j)"
      then obtain k where k: "k < length cands"
        and sel: "select_min cands ls' current optim = Some (cands ! k)"
        and ll: "less_loss (ls' ! k) current"
        and mn: "\<forall>j<length cands. ls' ! k \<le> ls' ! j" and fst: "\<forall>j<k. ls' ! k < ls' ! j"
        by auto
      from not_less_loss[OF False ll] have lt: "ls' ! k < l" .
      have "Suc k < length (a # cands)" using k by simp
      moreover have "select_min (a # cands) ls current optim = Some ((a # cands) ! Suc k)"
        using False ls sel by simp
      moreover have "less_loss (ls ! Suc k) current"
        using ll ls by simp
      moreover have "\<forall>j<length (a # cands). ls ! Suc k \<le> ls ! j"
        using mn lt ls by (auto simp: nth_Cons split: nat.splits)
      moreover have "\<forall>j<Suc k. ls ! Suc k < ls ! j"
        using fst lt ls by (auto simp: nth_Cons split: nat.splits)
      ultimately show ?thesis by blast
    qed
  qed
qed

lemma select_min_first:
  assumes "length ls = length cands" "cands \<noteq> []"
  shows "\<exists>k<length cands. select_min cands ls None None = Some (cands ! k) \<and>
        (\<forall>j<length cands. ls ! k \<le> ls ! j) \<and> (\<forall>j<k. ls ! k < ls ! j)"
proof -
  from assms(2) have "0 < length cands" by simp
  moreover have "less_loss (ls ! 0) None" by (simp add: less_loss_def)
  ultimately have "\<not> (\<forall>j<length cands. \<not> less_loss (ls ! j) None)" by blast
  with select_min_spec[OF assms(1), of None None] show ?thesis by blast
qed

lemma prune_tree_empty_path:
  assumes "model S = Some m" "cost_complexity_pruning_path L m Xtr wtr = Inr []"
  shows "prune_tree L S Xtr Xv wtr wv g = Inl UnboundLocalError"
  using assms by (simp add: prune_tree_def)

text \<open>
  Claim C5, amended. \<^verbatim>\<open>prune_tree\<close> scores the candidates in the order in which the pruning
  path lists them (increasing, for sklearn's path) and returns the first candidate whose
  Brier loss on the held-out half is lowest; on a path without candidates it raises
  Python's \<^verbatim>\<open>UnboundLocalError\<close>, since \<^verbatim>\<open>optim_ccp\<close> was never assigned.
\<close>

theorem prune_tree_first_minimum:
  assumes "model S = Some m" "cost_complexity_pruning_path L m Xtr wtr = Inr cands"
    and "candidate_losses L m Xtr Xv wtr wv cands g = Inr (ls, g')"
  shows "length ls = length cands \<and>
     (cands = [] \<longrightarrow> prune_tree L S Xtr Xv wtr wv g = Inl UnboundLocalError) \<and>
     (cands \<noteq> [] \<longrightarrow>
        (\<exists>k<length cands. prune_tree L S Xtr Xv wtr wv g = Inr (cands ! k, g') \<and>
           (\<forall>j<length cands. ls ! k \<le> ls ! j) \<and> (\<forall>j<k. ls ! k < ls ! j)))"
proof -
  note len = candidate_losses_length[OF assms(3)]
  have pl: "prune_loop L m Xtr Xv wtr wv cands None None g = Inr (select_min cands ls None None, g')"
    by (rule prune_loop_select[OF assms(3)])
  have "\<exists>k<length cands. prune_tree L S Xtr Xv wtr wv g = Inr (cands ! k, g') \<and>
           (\<forall>j<length cands. ls ! k \<le> ls ! j) \<and> (\<forall>j<k. ls ! k < ls ! j)" if "cands \<noteq> []"
  proof -
    from select_min_first[OF len that] obtain k where k: "k < length cands"
      and sel: "select_min cands ls None None = Some (cands ! k)"
      and mn: "(\<forall>j<length cands. ls ! k \<le> ls ! j) \<and> (\<forall>j<k. ls ! k < ls ! j)" by blast
    from assms(1,2) pl sel have "prune_tree L S Xtr Xv wtr wv g = Inr (cands ! k, g')"
      by (simp add: prune_tree_def)
    with k mn show ?thesis by blast
  qed
  moreover have "prune_tree L S Xtr Xv wtr wv g = Inl UnboundLocalError" if "cands = []"
    using prune_tree_empty_path[OF assms(1)] assms(2) that by simp
  ultimately show ?thesis using len by blast
qed

lemma toy_candidate_losses:
  "candidate_losses toy_lib (Toy ''sklearn.tree.DecisionTreeClassifier'' None)
     [[0], [0]] [[0], [0]] [1, 1] [1, 0] [0, 1 / 10] 650 = Inr ([1 / 2, 1 / 2], 650)"
  by (simp add: toy_lib_fields np_mean_def)

lemma toy_prune_tree:
  "prune_tree toy_lib toy_unfitted_tree [[0], [0]] [[0], [0]] [1, 1] [1, 0] 650 = Inr (0, 650)"
  by (simp add: prune_tree_def toy_unfitted_tree_def init_def toy_lib_fields np_mean_def
      less_loss_def)

theorem prune_tree_first_minimum_witness:
  "cost_complexity_pruning_path toy_lib (Toy ''sklearn.tree.DecisionTreeClassifier'' None)
     [[0], [0]] [1, 1] = Inr [0, 1 / 10] \<and>
   candidate_losses toy_lib (Toy ''sklearn.tree.DecisionTreeClassifier'' None)
     [[0], [0]] [[0], [0]] [1, 1] [1, 0] [0, 1 / 10] 650 = Inr ([1 / 2, 1 / 2], 650) \<and>
   prune_tree toy_lib toy_unfitted_tree [[0], [0]] [[0], [0]] [1, 1] [1, 0] 650 = Inr (0, 650)"
proof -
  have m: "model toy_unfitted_tree = Some (Toy ''sklearn.tree.DecisionTreeClassifier'' None)"
    by (simp add: toy_unfitted_tree_def init_def)
  have p: "cost_complexity_pruning_path toy_lib (Toy ''sklearn.tree.DecisionTreeClassifier'' None)
     [[0], [0]] [1, 1] = Inr [0, 1 / 10]"
    by (simp add: toy_lib_fields)
  note th = prune_tree_first_minimum[OF m p toy_candidate_losses]
  from th p toy_candidate_losses toy_prune_tree show ?thesis by blast
qed

text \<open>
  The claim as stated fails: on a pruning path without candidates the error is not the
  \<open>NoPruningCandidate\<close> of the specification.
\<close>

theorem prune_tree_empty_counterexample:
  "prune_tree toy_lib_empty_path toy_unfitted_tree
      [[0], [0]] [[0], [0]] [1, 1] [1, 0] 650 = Inl UnboundLocalError \<and>
   prune_tree toy_lib_empty_path toy_unfitted_tree
      [[0], [0]] [[0], [0]] [1, 1] [1, 0] 650 \<noteq> Inl NoPruningCandidate"
  by (simp add: prune_tree_def toy_unfitted_tree_def init_def toy_lib_empty_path_def)

section \<open>A tag that names no evaluator family\<close>

lemma init_coverage_evaluator_unsupported:
  assumes "coverage_evaluator S = Tag s" "s \<noteq> ''CART''" "s \<noteq> ''RF''" "s \<noteq> ''GAM''"
  shows "init_coverage_evaluator L S g rs ps kw = (Some AttributeError, S)"
  using assms by (simp add: init_coverage_evaluator_def)

lemma predict_no_model: "model S = None \<Longrightarrow> predict L S X = Inl AttributeError"
  by (simp add: predict_def is_table_family_def)

lemma fit_unsupported:
  assumes "coverage_evaluator S0 = Tag s" "s \<noteq> ''CART''" "s \<noteq> ''RF''" "s \<noteq> ''GAM''"
    and "fit L S0 X y rs ps ts kw = (r, S)"
  shows "r \<noteq> None \<and> model S = model S0"
proof (cases "predict_intervals S0 X")
  case (Inl e)
  with assms(5) show ?thesis by (auto simp: fit_def)
next
  case preds: (Inr preds)
  show ?thesis
  proof (cases "label y preds")
    case (Inl e)
    with assms(5) preds show ?thesis by (auto simp: fit_def)
  next
    case w: (Inr w)
    show ?thesis
    proof (cases "split_train S0")
      case False
      with assms preds w show ?thesis
        by (auto simp: fit_def init_coverage_evaluator_unsupported)
    next
      case True
      show ?thesis
      proof (cases "train_test_split L (np_random_seed L rs) X w ts")
        case (Inl e)
        with assms(5) preds w True show ?thesis by (auto simp: fit_def)
      next
        case (Inr sp)
        obtain Xtr Xte wtr wte g where "sp = ((Xtr, Xte, wtr, wte), g)"
          by (cases sp) auto
        with Inr assms preds w True show ?thesis
          by (auto simp: fit_def init_coverage_evaluator_unsupported)
      qed
    qed
  qed
qed

lemma fit_unsupported_error:
  assumes "coverage_evaluator S0 = Tag s" "s \<noteq> ''CART''" "s \<noteq> ''RF''" "s \<noteq> ''GAM''"
    and "predict_intervals S0 X = Inr preds" "label y preds = Inr w"
    and "split_train S0 \<Longrightarrow> train_test_split L (np_random_seed L rs) X w ts = Inr sp"
  shows "fst (fit L S0 X y rs ps ts kw) = Some AttributeError"
proof (cases "split_train S0")
  case False
  with assms show ?thesis by (simp add: fit_def init_coverage_evaluator_unsupported)
next
  case True
  obtain Xtr Xte wtr wte g where "sp = ((Xtr, Xte, wtr, wte), g)"
    by (cases sp) auto
  with assms True show ?thesis by (simp add: fit_def init_coverage_evaluator_unsupported)
qed

text \<open>
  The fall-through of \<^verbatim>\<open>predict\<close> exists in the code: with a custom estimator object whose
  type is not sklearn's, \<^verbatim>\<open>predict\<close> returns \<^verbatim>\<open>None\<close>.
\<close>

lemma predict_custom_returns_none:
  assumes "coverage_evaluator S = Estimator m0" "model S = Some m"
    and "\<not> sublist ''sklearn'' (type_str L m)"
  shows "predict L S X = Inr None"
  using assms by (simp add: predict_def is_table_family_def)

text \<open>
  Claim C3, amended. For every tag that is a string other than \<^verbatim>\<open>"CART"\<close>, \<^verbatim>\<open>"RF"\<close> and
  \<^verbatim>\<open>"GAM"\<close>, \<^verbatim>\<open>fit\<close> on a new object fails and stores no model; once the intervals, the
  labelling and the split have succeeded the failure is Python's \<^verbatim>\<open>AttributeError\<close> (a
  string has no \<^verbatim>\<open>set_params\<close>); and \<^verbatim>\<open>predict\<close> on the object then raises
  \<^verbatim>\<open>AttributeError\<close>: it does not return nothing.
\<close>

theorem unsupported_tag_fails:
  assumes "s \<noteq> ''CART''" "s \<noteq> ''RF''" "s \<noteq> ''GAM''"
    and "fit (L :: ('m, 'g, 'k) lib) (init c a isnc lcp (Tag s) pr sp) X y rs ps ts kw = (r, S)"
  shows "r \<noteq> None \<and> model S = None \<and> predict L S X' = Inl AttributeError \<and>
     (\<forall>preds w.
        predict_intervals (init c a isnc lcp (Tag s) pr sp :: 'm valid_pred_sets) X = Inr preds \<and>
        label y preds = Inr w \<and>
        (sp \<longrightarrow> (\<exists>parts. train_test_split L (np_random_seed L rs) X w ts = Inr parts)) \<longrightarrow>
        r = Some AttributeError)"
proof -
  from assms(4) obtain S0 where S0: "S0 = init c a isnc lcp (Tag s) pr sp"
    and fitS0: "fit L S0 X y rs ps ts kw = (r, S)" by simp
  have ce: "coverage_evaluator S0 = Tag s" and m0: "model S0 = None"
    and st: "split_train S0 = sp"
    by (simp_all add: S0 init_def)
  from fit_unsupported[OF ce assms(1-3) fitS0] m0 have 1: "r \<noteq> None" "model S = None" by simp_all
  have err: "r = Some AttributeError"
    if "predict_intervals S0 X = Inr preds" "label y preds = Inr w"
      "sp \<longrightarrow> (\<exists>parts. train_test_split L (np_random_seed L rs) X w ts = Inr parts)" for preds w
  proof (cases sp)
    case True
    with that(3) obtain parts where "train_test_split L (np_random_seed L rs) X w ts = Inr parts"
      by blast
    from fit_unsupported_error[OF ce assms(1-3) that(1,2), of L rs ts parts ps kw] this fitS0
    show ?thesis by simp
  next
    case False
    with fit_unsupported_error[OF ce assms(1-3) that(1,2), of L rs ts _ ps kw] st fitS0
    show ?thesis by simp
  qed
  have 2: "\<forall>preds w. predict_intervals S0 X = Inr preds \<and> label y preds = Inr w \<and>
        (sp \<longrightarrow> (\<exists>parts. train_test_split L (np_random_seed L rs) X w ts = Inr parts)) \<longrightarrow>
        r = Some AttributeError"
    using err by blast
  from 1 2 predict_no_model[OF 1(2), of L X'] show ?thesis unfolding S0 by simp
qed

lemma toy_unsupported_fit:
  "fit toy_lib (init toy_conf (1 / 10) False False (Tag ''SVM'') True True) toy_X toy_y 1250 650 (1 / 5) ()
     = (Some AttributeError, toy_unsupported)"
  by (simp add: fit_def predict_intervals_def toy_lib_fields toy_conf_def toy_X_def toy_y_def
      init_def toy_unsupported_def label_def idx1_def idx2_def upt_rec
      init_coverage_evaluator_def)

theorem unsupported_tag_fails_witness:
  "''SVM'' \<noteq> ''CART'' \<and> ''SVM'' \<noteq> ''RF'' \<and> ''SVM'' \<noteq> ''GAM'' \<and>
   fit toy_lib (init toy_conf (1 / 10) False False (Tag ''SVM'') True True) toy_X toy_y 1250 650 (1 / 5) ()
     = (Some AttributeError, toy_unsupported) \<and>
   model toy_unsupported = None \<and>
   predict toy_lib toy_unsupported [[0]] = Inl AttributeError"
  using unsupported_tag_fails[OF _ _ _ toy_unsupported_fit, of "[[0]]"] toy_unsupported_fit
  by simp

text \<open>
  The claim as stated fails: the error of \<^verbatim>\<open>fit\<close> under an unsupported tag is not the
  \<open>UnsupportedEvaluator\<close> of the specification.
\<close>

theorem unsupported_tag_counterexample:
  "fst (fit toy_lib (init toy_conf (1 / 10) False False (Tag ''SVM'') True True)
          toy_X toy_y 1250 650 (1 / 5) ()) = Some AttributeError \<and>
   fst (fit toy_lib (init toy_conf (1 / 10) False False (Tag ''SVM'') True True)
          toy_X toy_y 1250 650 (1 / 5) ()) \<noteq> Some UnsupportedEvaluator"
  by (simp add: toy_unsupported_fit)

section \<open>Target vector and feature matrix of different lengths\<close>

lemma label_loop_error:
  "label_loop y preds js w = Inl e \<Longrightarrow> e = IndexError"
proof (induction js arbitrary: w)
  case Nil
  then show ?case by simp
next
  case (Cons j js)
  then show ?case
    by (auto simp: idx1_def idx2_def split: if_splits sum.splits)
qed

lemma label_loop_short:
  "\<exists>j\<in>set js. \<not> j < length preds \<Longrightarrow> \<exists>e. label_loop y preds js w = Inl e"
proof (induction js arbitrary: w)
  case Nil
  then show ?case by simp
next
  case (Cons j js)
  show ?case
  proof (cases "j < length preds")
    case False
    then show ?thesis by (auto simp: idx1_def idx2_def split: sum.splits)
  next
    case True
    with Cons.prems have "\<exists>j\<in>set js. \<not> j < length preds" by auto
    from Cons.IH[OF this] show ?thesis
      by (auto simp: idx1_def idx2_def split: sum.splits)
  qed
qed

lemma label_short_preds:
  assumes "length preds < length y"
  shows "label y preds = Inl IndexError"
proof -
  from assms have "\<exists>j\<in>set [0..<length y]. \<not> j < length preds"
    by (intro bexI[of _ "length preds"]) auto
  from label_loop_short[OF this] obtain e where
    "label_loop y preds [0..<length y] (replicate (length y) 0) = Inl e" by blast
  with label_loop_error[OF this] show ?thesis by (simp add: label_def)
qed

text \<open>
  Claim C4, amended. With the intervals \<open>preds\<close> of the calibration rows at hand: when
  \<open>preds\<close> has fewer rows than \<open>y\<close> has entries, \<^verbatim>\<open>fit\<close> fails at labelling time with
  Python's \<^verbatim>\<open>IndexError\<close>, before any split or model fitting, and leaves the object as it
  was; when \<open>y\<close> is not the longer one (and every row has two columns), the labelling
  succeeds with an indicator of the length of \<open>y\<close>, and \<^verbatim>\<open>fit\<close> goes on to the split and
  to the estimator with it.
\<close>

theorem fit_length_mismatch:
  assumes "predict_intervals S X = Inr preds"
  shows "(length preds < length y \<longrightarrow> fit L S X y rs ps ts kw = (Some IndexError, S)) \<and>
     (length y \<le> length preds \<and> (\<forall>i<length y. 2 \<le> length (preds ! i)) \<longrightarrow>
        (\<exists>w. label y preds = Inr w \<and> length w = length y \<and>
           fit L S X y rs ps ts kw =
             (if split_train S then
                (case train_test_split L (np_random_seed L rs) X w ts of
                   Inl e \<Rightarrow> (Some e, S)
                 | Inr ((Xtr, Xte, wtr, wte), g) \<Rightarrow>
                     init_coverage_evaluator L
                       (S\<lparr>X_train := Some Xtr, X_test := Some Xte,
                          w_train := Some wtr, w_test := Some wte\<rparr>) g rs ps kw)
              else init_coverage_evaluator L (S\<lparr>X_train := Some X, w_train := Some w\<rparr>)
                     (np_random_seed L rs) rs ps kw)))"
proof (intro conjI impI)
  assume "length preds < length y"
  from label_short_preds[OF this] assms
  show "fit L S X y rs ps ts kw = (Some IndexError, S)" by (simp add: fit_def)
next
  assume h: "length y \<le> length preds \<and> (\<forall>i<length y. 2 \<le> length (preds ! i))"
  then obtain w where w: "label y preds = Inr w" using label_total by blast
  from label_covered[OF w] have "length w = length y" by simp
  with w assms show "\<exists>w. label y preds = Inr w \<and> length w = length y \<and>
           fit L S X y rs ps ts kw =
             (if split_train S then
                (case train_test_split L (np_random_seed L rs) X w ts of
                   Inl e \<Rightarrow> (Some e, S)
                 | Inr ((Xtr, Xte, wtr, wte), g) \<Rightarrow>
                     init_coverage_evaluator L
                       (S\<lparr>X_train := Some Xtr, X_test := Some Xte,
                          w_train := Some wtr, w_test := Some wte\<rparr>) g rs ps kw)
              else init_coverage_evaluator L (S\<lparr>X_train := Some X, w_train := Some w\<rparr>)
                     (np_random_seed L rs) rs ps kw)"
    by (simp add: fit_def)
qed

lemma toy_intervals: "predict_intervals toy_S0_nosplit X = Inr (map (\<lambda>x. [0, 2]) X)"
  by (simp add: predict_intervals_def toy_S0_nosplit_def init_def toy_conf_def)

lemma toy_S0_nosplit_fields:
  "split_train toy_S0_nosplit = False" "coverage_evaluator toy_S0_nosplit = Tag ''RF''"
  by (simp_all add: toy_S0_nosplit_def init_def)

lemma toy_fit_long_y:
  "fit toy_lib toy_S0_nosplit [[0], [0]] [1, 3, 1] 1250 650 (1 / 5) () = (Some IndexError, toy_S0_nosplit)"
  by (simp add: fit_def toy_intervals label_def idx1_def idx2_def upt_rec)

lemma toy_fit_short_y:
  "fit toy_lib toy_S0_nosplit [[0], [0], [0]] [1, 3] 1250 650 (1 / 5) () =
     (Some ValueError, toy_S0_nosplit\<lparr>X_train := Some [[0], [0], [0]], w_train := Some [1, 0]\<rparr>)"
  by (simp add: fit_def toy_intervals label_def idx1_def idx2_def upt_rec
      init_coverage_evaluator_def fit_on_train_def toy_lib_fields toy_S0_nosplit_fields)

theorem fit_length_mismatch_witness:
  "predict_intervals toy_S0_nosplit [[0], [0]] = Inr [[0, 2], [0, 2]] \<and>
   length [[0, 2], [0, 2 :: real]] < length [1, 3, 1 :: real] \<and>
   fit toy_lib toy_S0_nosplit [[0], [0]] [1, 3, 1] 1250 650 (1 / 5) () = (Some IndexError, toy_S0_nosplit) \<and>
   predict_intervals toy_S0_nosplit [[0], [0], [0]] = Inr [[0, 2], [0, 2], [0, 2]] \<and>
   label [1, 3] [[0, 2], [0, 2], [0, 2]] = Inr [1, 0]"
  using fit_length_mismatch[of toy_S0_nosplit "[[0], [0]]" "[[0, 2], [0, 2]]" "[1, 3, 1]" toy_lib
      1250 650 "1 / 5" "()"]
    fit_length_mismatch[of toy_S0_nosplit "[[0], [0], [0]]" "[[0, 2], [0, 2], [0, 2]]" "[1, 3]" toy_lib
      1250 650 "1 / 5" "()"]
  by (simp add: toy_intervals toy_fit_long_y label_def idx1_def idx2_def upt_rec)

text \<open>
  The claim as stated fails: with a target vector shorter than the feature matrix the
  labelling succeeds, and the error comes from the fitting of the estimator.
\<close>

theorem fit_length_mismatch_counterexample:
  "length [[0], [0], [0 :: real]] \<noteq> length [1, 3 :: real] \<and>
   label [1, 3] [[0, 2], [0, 2], [0, 2]] = Inr [1, 0] \<and>
   fit toy_lib toy_S0_nosplit [[0], [0], [0]] [1, 3] 1250 650 (1 / 5) () =
     (Some ValueError, toy_S0_nosplit\<lparr>X_train := Some [[0], [0], [0]], w_train := Some [1, 0]\<rparr>) \<and>
   fst (fit toy_lib toy_S0_nosplit [[0], [0], [0]] [1, 3] 1250 650 (1 / 5) ()) \<noteq> Some ShapeMismatch"
  by (simp add: toy_fit_short_y label_def idx1_def idx2_def upt_rec)

end
